theory Spec2Isabelle
  imports Main "HOL-Library.Sublist"
begin

section \<open>Strings as the JavaScript source uses them\<close>

text \<open>
  A JavaScript string is modelled as a \<open>string\<close>: a list of characters whose codes
  0..255 are read as the code points U+0000..U+00FF. The functions below are the
  String methods and regular expressions that the source calls.
\<close>

definition is_word :: "char \<Rightarrow> bool" where
  \<comment> \<open>the regular expression class \<open>\w\<close>: \<open>[A-Za-z0-9_]\<close>\<close>
  "is_word c = (let n = (of_char c :: nat) in
      (97 \<le> n \<and> n \<le> 122) \<or> (65 \<le> n \<and> n \<le> 90) \<or> (48 \<le> n \<and> n \<le> 57) \<or> n = 95)"

definition toLowerChar :: "char \<Rightarrow> char" where
  \<comment> \<open>\<open>toLowerCase\<close> on one code point below U+0100: A..Z and the capital letters
      U+00C0..U+00DE (U+00D7, the multiplication sign, is no letter) move up by 32\<close>
  "toLowerChar c = (let n = (of_char c :: nat) in
      if (65 \<le> n \<and> n \<le> 90) \<or> (192 \<le> n \<and> n \<le> 222 \<and> n \<noteq> 215)
      then char_of (n + 32) else c)"

definition toLowerCase :: "string \<Rightarrow> string" where
  "toLowerCase s = map toLowerChar s"

definition is_space :: "char \<Rightarrow> bool" where
  \<comment> \<open>white space and line terminators that \<open>trim\<close> removes, below U+0100:
      tab, line feed, vertical tab, form feed, carriage return, space, no-break space\<close>
  "is_space c = (let n = (of_char c :: nat) in (9 \<le> n \<and> n \<le> 13) \<or> n = 32 \<or> n = 160)"

definition trim :: "string \<Rightarrow> string" where
  "trim s = rev (dropWhile is_space (rev (dropWhile is_space s)))"

function replace_runs :: "(char \<Rightarrow> bool) \<Rightarrow> string \<Rightarrow> string \<Rightarrow> string" where
  \<comment> \<open>\<open>s.replace(/[C]+/g, r)\<close> for a character class C given as the predicate \<open>p\<close>:
      scanning from the left, the longest run of class characters starting at the
      current position is replaced by \<open>r\<close> and the scan goes on behind the run\<close>
  "replace_runs p r [] = []"
| "replace_runs p r (c # cs) =
     (if p c then r @ replace_runs p r (dropWhile p cs) else c # replace_runs p r cs)"
  by pat_completeness auto
termination
  by (relation "measure (\<lambda>(p, r, s). length s)")
     (auto simp: length_dropWhile_le le_imp_less_Suc)

definition slugify :: "string \<Rightarrow> string" where
  \<comment> \<open>the body of \<open>ProjectSchema.pre('save')\<close>:
      \<open>this.title.toLowerCase().replace(/[^\w ]+/g, '').replace(/ +/g, '-')\<close>\<close>
  "slugify s =
     replace_runs (\<lambda>c. c = CHR '' '') ''-''
       (replace_runs (\<lambda>c. \<not> (is_word c \<or> c = CHR '' '')) [] (toLowerCase s))"

subsection \<open>The derivation rule as the specification words it\<close>

function maximal_runs :: "(char \<Rightarrow> bool) \<Rightarrow> string \<Rightarrow> string list" where
  \<comment> \<open>the string cut into its maximal blocks of characters that are all in the
      class \<open>p\<close> or all outside it\<close>
  "maximal_runs p [] = []"
| "maximal_runs p (c # cs) =
     (c # takeWhile (\<lambda>d. p d = p c) cs) # maximal_runs p (dropWhile (\<lambda>d. p d = p c) cs)"
  by pat_completeness auto
termination
  by (relation "measure (\<lambda>(p, s). length s)")
     (auto simp: length_dropWhile_le le_imp_less_Suc)

definition hyphen_for_spaces :: "string \<Rightarrow> string" where
  \<comment> \<open>a block of spaces becomes one hyphen, any other block stays\<close>
  "hyphen_for_spaces block =
     (case block of [] \<Rightarrow> [] | c # _ \<Rightarrow> if c = CHR '' '' then ''-'' else block)"

definition derive_slug :: "string \<Rightarrow> string" where
  \<comment> \<open>Follows the specification: the title lowercased, every character that is
      neither a word character nor a space deleted, each maximal run of spaces
      replaced by a single hyphen.\<close>
  "derive_slug s =
     concat (map hyphen_for_spaces
       (maximal_runs (\<lambda>c. c = CHR '' '')
         (filter (\<lambda>c. is_word c \<or> c = CHR '' '') (map toLowerChar s))))"

subsection \<open>Regular expressions without anchors inside\<close>

datatype cclass =
    Word
  | OneOf string

fun in_class :: "cclass \<Rightarrow> char \<Rightarrow> bool" where
  "in_class Word c = is_word c"
| "in_class (OneOf cs) c = (c \<in> set cs)"

datatype rexp =
    Eps
  | Sym cclass
  | Alt rexp rexp
  | Seq rexp rexp
  | Star rexp

fun nullable :: "rexp \<Rightarrow> bool" where
  "nullable Eps = True"
| "nullable (Sym k) = False"
| "nullable (Alt r q) = (nullable r \<or> nullable q)"
| "nullable (Seq r q) = (nullable r \<and> nullable q)"
| "nullable (Star r) = True"

fun seq :: "rexp \<Rightarrow> rexp \<Rightarrow> rexp" where
  \<comment> \<open>a sequence whose head has been matched completely is its tail\<close>
  "seq Eps q = q"
| "seq r q = Seq r q"

fun after_char :: "char \<Rightarrow> rexp \<Rightarrow> rexp list" where
  \<comment> \<open>the expressions of which one is left to match once the character \<open>c\<close> has
      been read\<close>
  "after_char c Eps = []"
| "after_char c (Sym k) = (if in_class k c then [Eps] else [])"
| "after_char c (Alt r q) = after_char c r @ after_char c q"
| "after_char c (Seq r q) =
     map (\<lambda>r'. seq r' q) (after_char c r) @ (if nullable r then after_char c q else [])"
| "after_char c (Star r) = map (\<lambda>r'. seq r' (Star r)) (after_char c r)"

definition advance :: "char \<Rightarrow> rexp list \<Rightarrow> rexp list" where
  "advance c rs = remdups (concat (map (after_char c) rs))"

definition test_whole :: "rexp \<Rightarrow> string \<Rightarrow> bool" where
  \<comment> \<open>\<open>/^r$/.test(s)\<close>: the whole string matches\<close>
  "test_whole r s = list_ex nullable (foldl (\<lambda>rs c. advance c rs) [r] s)"

fun test_from :: "rexp list \<Rightarrow> string \<Rightarrow> bool" where
  \<comment> \<open>a match that starts at the first character\<close>
  "test_from rs [] = list_ex nullable rs"
| "test_from rs (c # cs) = (list_ex nullable rs \<or> test_from (advance c rs) cs)"

fun test_anywhere :: "rexp \<Rightarrow> string \<Rightarrow> bool" where
  \<comment> \<open>\<open>/r/.test(s)\<close>: a match that starts at some position\<close>
  "test_anywhere r [] = nullable r"
| "test_anywhere r (c # cs) = (test_from [r] (c # cs) \<or> test_anywhere r cs)"

definition chr :: "char \<Rightarrow> rexp" where
  "chr c = Sym (OneOf [c])"

definition lit :: "string \<Rightarrow> rexp" where
  "lit s = foldr (\<lambda>c r. Seq (chr c) r) s Eps"

definition Many1 :: "rexp \<Rightarrow> rexp" where
  \<comment> \<open>\<open>r+\<close>\<close>
  "Many1 r = Seq r (Star r)"

definition Maybe :: "rexp \<Rightarrow> rexp" where
  \<comment> \<open>\<open>r?\<close>\<close>
  "Maybe r = Alt r Eps"

definition email_pattern :: rexp where
  \<comment> \<open>\<open>/^\w+([.-]?\w+)*@\w+([.-]?\w+)*(\.\w{2,3})+$/\<close>, between its anchors\<close>
  "email_pattern =
     (let w = Sym Word;
          more = Star (Seq (Maybe (Sym (OneOf ''.-''))) (Many1 w))
      in Seq (Many1 w) (Seq more (Seq (chr CHR ''@'') (Seq (Many1 w) (Seq more
           (Many1 (Seq (chr CHR ''.'') (Seq w (Seq w (Maybe w))))))))))"

definition filetypes :: rexp where
  \<comment> \<open>\<open>/jpeg|jpg|png|webp/\<close>\<close>
  "filetypes = Alt (lit ''jpeg'') (Alt (lit ''jpg'') (Alt (lit ''png'') (lit ''webp'')))"

subsection \<open>The strings that an expression matches\<close>

text \<open>
  The meaning of an expression as a set of strings, against which the matcher above
  is proved correct.
\<close>

definition conc :: "string set \<Rightarrow> string set \<Rightarrow> string set" where
  "conc A B = {u @ v | u v. u \<in> A \<and> v \<in> B}"

inductive_set star :: "string set \<Rightarrow> string set" for A :: "string set" where
  star_empty: "[] \<in> star A"
| star_more: "u \<in> A \<Longrightarrow> v \<in> star A \<Longrightarrow> u @ v \<in> star A"

fun lang :: "rexp \<Rightarrow> string set" where
  "lang Eps = {[]}"
| "lang (Sym k) = {[c] | c. in_class k c}"
| "lang (Alt r q) = lang r \<union> lang q"
| "lang (Seq r q) = conc (lang r) (lang q)"
| "lang (Star r) = star (lang r)"

definition langs :: "rexp list \<Rightarrow> string set" where
  "langs rs = (\<Union>r \<in> set rs. lang r)"

subsection \<open>File names and numbers\<close>

definition last_segment :: "string \<Rightarrow> string" where
  \<comment> \<open>the last component of a path, slashes at its end set aside\<close>
  "last_segment p =
     rev (takeWhile (\<lambda>c. c \<noteq> CHR ''/'') (dropWhile (\<lambda>c. c = CHR ''/'') (rev p)))"

definition path_extname :: "string \<Rightarrow> string" where
  \<comment> \<open>Node's \<open>path.extname\<close>: from the last dot of the last component to its end;
      empty when there is no dot, when the only dot is its first character, or when
      the component is \<open>..\<close>\<close>
  "path_extname p =
     (let seg = last_segment p;
          ext = rev (takeWhile (\<lambda>c. c \<noteq> CHR ''.'') (rev seg));
          stem = take (length seg - length ext - 1) seg
      in if CHR ''.'' \<in> set seg \<and> stem \<noteq> [] \<and> seg \<noteq> ''..'' then CHR ''.'' # ext
         else [])"

function show_nat :: "nat \<Rightarrow> string" where
  \<comment> \<open>a number inside a template string: its decimal digits\<close>
  "show_nat n =
     (if n < 10 then [char_of (48 + n)]
      else show_nat (n div 10) @ [char_of (48 + n mod 10)])"
  by pat_completeness auto
termination
  by (relation "measure (\<lambda>n. n)") auto

declare show_nat.simps [simp del]

section \<open>Environment, errors and responses\<close>

type_synonym objid = string

record mail =
  mail_from :: string
  mail_to :: string
  mail_subject :: string
  mail_text :: string

text \<open>
  What the source calls but does not define is a field of the environment:
  \<open>jwt.verify\<close> with the server's secret (the decoded \<open>id\<close>, or \<open>None\<close> when it
  throws), the cast of a string to an ObjectId inside \<open>findById\<close>, whether the SMTP
  transporter delivers a mail, \<open>Date.now()\<close>, the id the store gives to a new
  document, and \<open>process.env.FROM_EMAIL\<close>.
\<close>

record env =
  jwt_verify :: "string \<Rightarrow> objid option"
  cast_object_id :: "string \<Rightarrow> bool"
  smtp_delivers :: "mail \<Rightarrow> bool"
  now :: nat
  fresh_id :: objid
  from_email :: string

record err =
  err_name :: string
  err_message :: string
  err_statusCode :: "nat option"
  err_code :: "nat option"
  err_errors :: "string list"

definition ErrorResponse :: "string \<Rightarrow> nat \<Rightarrow> err" where
  \<comment> \<open>\<open>class ErrorResponse extends Error\<close>: the message and a \<open>statusCode\<close>\<close>
  "ErrorResponse msg sc =
     \<lparr>err_name = ''Error'', err_message = msg, err_statusCode = Some sc,
      err_code = None, err_errors = []\<rparr>"

definition TypeError :: "string \<Rightarrow> err" where
  "TypeError msg =
     \<lparr>err_name = ''TypeError'', err_message = msg, err_statusCode = None,
      err_code = None, err_errors = []\<rparr>"

definition CastError :: "string \<Rightarrow> err" where
  \<comment> \<open>Mongoose: the string is no ObjectId\<close>
  "CastError v =
     \<lparr>err_name = ''CastError'',
      err_message = ''Cast to ObjectId failed for value '' @ v,
      err_statusCode = None, err_code = None, err_errors = []\<rparr>"

definition ValidationError :: "string list \<Rightarrow> err" where
  \<comment> \<open>Mongoose: \<open>err.errors\<close> holds one entry with a message for each failed path\<close>
  "ValidationError msgs =
     \<lparr>err_name = ''ValidationError'', err_message = ''Validation failed'',
      err_statusCode = None, err_code = None, err_errors = msgs\<rparr>"

definition DuplicateKeyError :: "string \<Rightarrow> err" where
  \<comment> \<open>the storage layer's error for a unique index: code 11000\<close>
  "DuplicateKeyError key =
     \<lparr>err_name = ''MongoError'',
      err_message = ''E11000 duplicate key error dup key: '' @ key,
      err_statusCode = None, err_code = Some 11000, err_errors = []\<rparr>"

record testimonial =
  quote :: "string option"
  t_name :: "string option"
  position :: "string option"
  t_company :: "string option"
  avatar :: "string option"

record user =
  u_id :: objid
  username :: string
  u_email :: string
  password :: string
  role :: string
  u_createdAt :: nat
  lastLogin :: nat

record project =
  p_id :: objid
  title :: string
  slug :: string
  client :: string
  description :: string
  shortDescription :: string
  categories :: "string list"
  technologies :: "string list"
  features :: "string list"
  thumbnailImage :: string
  galleryImages :: "string list"
  projectUrl :: "string option"
  p_testimonial :: "testimonial option"
  featured :: bool
  completionDate :: "nat option"
  createdBy :: objid
  p_createdAt :: nat
  p_updatedAt :: nat

record contact =
  c_id :: objid
  firstName :: string
  lastName :: string
  email :: string
  company :: "string option"
  message :: string
  c_status :: string
  dateSubmitted :: nat
  lastUpdated :: nat
  c_createdAt :: nat
  c_updatedAt :: nat

datatype payload =
    ProjectData project
  | ContactData contact
  | NullData
  | EmptyData
  | FileData string string
  | MessageText string
  | ErrorText string

record response =
  status :: nat
  success :: bool
  body :: payload

record state =
  users :: "user list"
  projects :: "project list"
  contacts :: "contact list"
  outbox :: "mail list"
  uploads :: "string list"

record 'b request =
  authorization :: "string option"
  cookie_token :: "string option"
  param_id :: string
  req_body :: 'b
  req_user :: "user option"

definition join_comma :: "string list \<Rightarrow> string" where
  \<comment> \<open>\<open>String(array)\<close>, which the \<open>Error\<close> constructor applies to a message
      that is an array: the elements joined by commas\<close>
  "join_comma xs = (case xs of [] \<Rightarrow> [] | y # ys \<Rightarrow> y @ concat (map (\<lambda>z. '','' @ z) ys))"

definition errorHandler :: "err \<Rightarrow> response" where
  "errorHandler e =
     (let error = (err_message e, err_statusCode e);
          error = (if err_name e = ''CastError''
                   then (''Resource not found'', Some 404) else error);
          error = (if err_code e = Some 11000
                   then (''Duplicate field value entered'', Some 400) else error);
          error = (if err_name e = ''ValidationError''
                   then (join_comma (err_errors e), Some 400) else error)
      in \<lparr>status = (case snd error of None \<Rightarrow> 500 | Some sc \<Rightarrow> if sc = 0 then 500 else sc),
          success = False,
          body = ErrorText (if fst error = [] then ''Server Error'' else fst error)\<rparr>)"

definition and_then :: "err + 'a \<Rightarrow> ('a \<Rightarrow> err + 'b) \<Rightarrow> err + 'b" where
  \<comment> \<open>the next handler of a route runs only when the one before called \<open>next()\<close>\<close>
  "and_then r f = (case r of Inl e \<Rightarrow> Inl e | Inr x \<Rightarrow> f x)"

definition respond :: "state \<Rightarrow> err + state \<times> response \<Rightarrow> state \<times> response" where
  \<comment> \<open>\<open>app.use(errorHandler)\<close>: an error passed to \<open>next\<close> or thrown is answered by
      the central handler, and the store is as it was\<close>
  "respond st r = (case r of Inl e \<Rightarrow> (st, errorHandler e) | Inr x \<Rightarrow> x)"

section \<open>Authentication middleware\<close>

definition startsWith :: "string \<Rightarrow> string \<Rightarrow> bool" where
  "startsWith s pre = (take (length pre) s = pre)"

definition split_second :: "string \<Rightarrow> string option" where
  \<comment> \<open>\<open>s.split(' ')[1]\<close>: what stands between the first and the second space,
      \<open>undefined\<close> when there is no space\<close>
  "split_second s =
     (case dropWhile (\<lambda>c. c \<noteq> CHR '' '') s of
        [] \<Rightarrow> None
      | _ # rest \<Rightarrow> Some (takeWhile (\<lambda>c. c \<noteq> CHR '' '') rest))"

definition truthy :: "string option \<Rightarrow> bool" where
  \<comment> \<open>a string value in a condition: \<open>undefined\<close> and the empty string are false\<close>
  "truthy v = (case v of None \<Rightarrow> False | Some s \<Rightarrow> s \<noteq> [])"

definition request_token :: "'b request \<Rightarrow> string option" where
  "request_token req =
     (if truthy (authorization req) \<and>
         startsWith (case authorization req of None \<Rightarrow> [] | Some h \<Rightarrow> h) ''Bearer''
      then (case authorization req of None \<Rightarrow> None | Some h \<Rightarrow> split_second h)
      else if truthy (cookie_token req) then cookie_token req
      else None)"

definition User_findById :: "env \<Rightarrow> state \<Rightarrow> objid \<Rightarrow> err + user option" where
  "User_findById en st i =
     (if cast_object_id en i then Inr (find (\<lambda>u. u_id u = i) (users st))
      else Inl (CastError i))"

definition protect :: "env \<Rightarrow> state \<Rightarrow> 'b request \<Rightarrow> err + 'b request" where
  "protect en st req =
     (let token = request_token req in
      if \<not> truthy token
      then Inl (ErrorResponse ''Not authorized to access this route'' 401)
      else
        (case jwt_verify en (case token of None \<Rightarrow> [] | Some t \<Rightarrow> t) of
           None \<Rightarrow> Inl (ErrorResponse ''Not authorized to access this route'' 401)
         | Some decoded_id \<Rightarrow>
             (case User_findById en st decoded_id of
                Inl _ \<Rightarrow> Inl (ErrorResponse ''Not authorized to access this route'' 401)
              | Inr found \<Rightarrow> Inr (req\<lparr>req_user := found\<rparr>))))"

definition null_property :: "string \<Rightarrow> err" where
  \<comment> \<open>reading a property of \<open>null\<close> throws a TypeError\<close>
  "null_property p =
     TypeError (''Cannot read property '' @ [CHR 0x27] @ p @ [CHR 0x27] @ '' of null'')"

definition authorize :: "string list \<Rightarrow> 'b request \<Rightarrow> err + 'b request" where
  "authorize roles req =
     (case req_user req of
        None \<Rightarrow> Inl (null_property ''role'')
      | Some u \<Rightarrow>
          if role u \<notin> set roles
          then Inl (ErrorResponse
                 (''User role '' @ role u @ '' is not authorized to access this route'') 403)
          else Inr req)"

section \<open>The Project model\<close>

text \<open>
  The body of a request to the Project routes: for each path of the schema its value,
  or \<open>None\<close> when the body does not name the path. \<open>b_uncastable\<close> lists the paths
  whose value in the body cannot be cast to the type of the path (a Boolean path that
  holds a list, say); the field of such a path is \<open>None\<close>.
\<close>

record project_body =
  b_title :: "string option"
  b_slug :: "string option"
  b_client :: "string option"
  b_description :: "string option"
  b_shortDescription :: "string option"
  b_categories :: "string list option"
  b_technologies :: "string list option"
  b_features :: "string list option"
  b_thumbnailImage :: "string option"
  b_galleryImages :: "string list option"
  b_projectUrl :: "string option"
  b_testimonial :: "testimonial option"
  b_featured :: "bool option"
  b_completionDate :: "nat option"
  b_createdBy :: "objid option"
  b_uncastable :: "string list"

definition or_else :: "'a option \<Rightarrow> 'a \<Rightarrow> 'a" where
  "or_else v d = (case v of None \<Rightarrow> d | Some x \<Rightarrow> x)"

definition required_string :: "string \<Rightarrow> string option \<Rightarrow> string list" where
  \<comment> \<open>\<open>required\<close> on a String path: absent and empty values fail\<close>
  "required_string msg v = (case v of None \<Rightarrow> [msg] | Some x \<Rightarrow> if x = [] then [msg] else [])"

definition required_array :: "string \<Rightarrow> string list option \<Rightarrow> string list" where
  \<comment> \<open>\<open>required\<close> on an array path only asks for an array: an empty one passes, and
      a path that the body does not name holds its default, the empty array\<close>
  "required_array msg v = (case v of None \<Rightarrow> [] | Some xs \<Rightarrow> [])"

definition cast_errors :: "project_body \<Rightarrow> string list" where
  \<comment> \<open>a document keeps the failed cast of a path as the validation error of the path\<close>
  "cast_errors b = map (\<lambda>path. ''Cast failed for value at path `'' @ path @ ''`'') (b_uncastable b)"

definition maxlength :: "nat \<Rightarrow> string \<Rightarrow> string option \<Rightarrow> string list" where
  "maxlength n msg v = (case v of None \<Rightarrow> [] | Some x \<Rightarrow> if length x \<le> n then [] else [msg])"

definition category_enum :: "string list" where
  "category_enum = [''AI'', ''Mobile'', ''Web'', ''UI/UX'']"

definition enum_categories :: "string list option \<Rightarrow> string list" where
  \<comment> \<open>\<open>enum\<close> on the array of categories: one message for each element outside\<close>
  "enum_categories v =
     map (\<lambda>x. ''`'' @ x @ ''` is not a valid enum value for path `categories`.'')
       (filter (\<lambda>x. x \<notin> set category_enum) (or_else v []))"

definition cast_project_body :: "project_body \<Rightarrow> project_body" where
  \<comment> \<open>the setters of the schema: \<open>trim: true\<close> on \<open>title\<close> and \<open>client\<close>\<close>
  "cast_project_body b =
     b\<lparr>b_title := map_option trim (b_title b), b_client := map_option trim (b_client b)\<rparr>"

definition validate_project :: "project_body \<Rightarrow> string list" where
  \<comment> \<open>the validators of \<open>ProjectSchema\<close>, run on a document before it is saved\<close>
  "validate_project b =
     cast_errors b @
     required_string ''Project title is required'' (b_title b) @
     maxlength 100 ''Title cannot be more than 100 characters'' (b_title b) @
     required_string ''Client name is required'' (b_client b) @
     required_string ''Project description is required'' (b_description b) @
     required_string ''Short description is required'' (b_shortDescription b) @
     maxlength 200 ''Short description cannot exceed 200 characters'' (b_shortDescription b) @
     required_array ''At least one category is required'' (b_categories b) @
     enum_categories (b_categories b) @
     required_array ''At least one technology is required'' (b_technologies b) @
     required_string ''Thumbnail image is required'' (b_thumbnailImage b) @
     required_string ''Path `createdBy` is required.'' (b_createdBy b)"

definition present_string :: "string \<Rightarrow> string option \<Rightarrow> string list" where
  \<comment> \<open>\<open>required\<close> as an update validator: only a path that the update sets is checked\<close>
  "present_string msg v = (case v of None \<Rightarrow> [] | Some x \<Rightarrow> if x = [] then [msg] else [])"

definition present_array :: "string \<Rightarrow> string list option \<Rightarrow> string list" where
  \<comment> \<open>\<open>required\<close> on an array path as an update validator: every array passes\<close>
  "present_array msg v = (case v of None \<Rightarrow> [] | Some xs \<Rightarrow> [])"

definition validate_update :: "project_body \<Rightarrow> string list" where
  \<comment> \<open>\<open>runValidators: true\<close>: the validators of the paths that the update sets\<close>
  "validate_update b =
     present_string ''Project title is required'' (b_title b) @
     maxlength 100 ''Title cannot be more than 100 characters'' (b_title b) @
     present_string ''Client name is required'' (b_client b) @
     present_string ''Project description is required'' (b_description b) @
     present_string ''Short description is required'' (b_shortDescription b) @
     maxlength 200 ''Short description cannot exceed 200 characters'' (b_shortDescription b) @
     present_array ''At least one category is required'' (b_categories b) @
     enum_categories (b_categories b) @
     present_array ''At least one technology is required'' (b_technologies b) @
     present_string ''Thumbnail image is required'' (b_thumbnailImage b) @
     present_string ''Path `createdBy` is required.'' (b_createdBy b)"

definition new_Project :: "env \<Rightarrow> project_body \<Rightarrow> project" where
  \<comment> \<open>\<open>new Project(body)\<close> with the defaults of the schema and its timestamps\<close>
  "new_Project en b =
     \<lparr>p_id = fresh_id en,
      title = or_else (b_title b) [],
      slug = or_else (b_slug b) [],
      client = or_else (b_client b) [],
      description = or_else (b_description b) [],
      shortDescription = or_else (b_shortDescription b) [],
      categories = or_else (b_categories b) [],
      technologies = or_else (b_technologies b) [],
      features = or_else (b_features b) [],
      thumbnailImage = or_else (b_thumbnailImage b) [],
      galleryImages = or_else (b_galleryImages b) [],
      projectUrl = b_projectUrl b,
      p_testimonial = b_testimonial b,
      featured = or_else (b_featured b) False,
      completionDate = b_completionDate b,
      createdBy = or_else (b_createdBy b) [],
      p_createdAt = now en,
      p_updatedAt = now en\<rparr>"

definition pre_save :: "project \<Rightarrow> project" where
  \<comment> \<open>\<open>ProjectSchema.pre('save')\<close>: auto-generate slug from title\<close>
  "pre_save doc = doc\<lparr>slug := slugify (title doc)\<rparr>"

definition Project_create :: "env \<Rightarrow> state \<Rightarrow> project_body \<Rightarrow> err + state \<times> project" where
  \<comment> \<open>\<open>Project.create(body)\<close>: the document is built, validated, passed through the
      save hook and inserted; \<open>slug\<close> has a unique index\<close>
  "Project_create en st b0 =
     (let b = cast_project_body b0; msgs = validate_project b in
      if msgs \<noteq> [] then Inl (ValidationError msgs)
      else
        (let doc = pre_save (new_Project en b) in
         if slug doc \<in> set (map slug (projects st)) then Inl (DuplicateKeyError (slug doc))
         else Inr (st\<lparr>projects := projects st @ [doc]\<rparr>, doc)))"

definition Project_findById :: "env \<Rightarrow> state \<Rightarrow> objid \<Rightarrow> err + project option" where
  "Project_findById en st i =
     (if cast_object_id en i then Inr (find (\<lambda>p. p_id p = i) (projects st))
      else Inl (CastError i))"

fun update_first :: "('a \<Rightarrow> bool) \<Rightarrow> ('a \<Rightarrow> 'a) \<Rightarrow> 'a list \<Rightarrow> 'a list" where
  "update_first P f [] = []"
| "update_first P f (x # xs) = (if P x then f x # xs else x # update_first P f xs)"

fun remove_first :: "('a \<Rightarrow> bool) \<Rightarrow> 'a list \<Rightarrow> 'a list" where
  "remove_first P [] = []"
| "remove_first P (x # xs) = (if P x then xs else x # remove_first P xs)"

definition sets_nothing :: "project_body \<Rightarrow> bool" where
  \<comment> \<open>the body names no path of the schema\<close>
  "sets_nothing b =
     (b_title b = None \<and> b_slug b = None \<and> b_client b = None \<and> b_description b = None \<and>
      b_shortDescription b = None \<and> b_categories b = None \<and> b_technologies b = None \<and>
      b_features b = None \<and> b_thumbnailImage b = None \<and> b_galleryImages b = None \<and>
      b_projectUrl b = None \<and> b_testimonial b = None \<and> b_featured b = None \<and>
      b_completionDate b = None \<and> b_createdBy b = None \<and> b_uncastable b = [])"

definition castable_update :: "env \<Rightarrow> project_body \<Rightarrow> bool" where
  \<comment> \<open>an update casts every value to the type of its path before anything is
      written: \<open>createdBy\<close> to an ObjectId, the other paths as \<open>b_uncastable\<close> says\<close>
  "castable_update en b =
     (b_uncastable b = [] \<and>
      (case b_createdBy b of None \<Rightarrow> True | Some i \<Rightarrow> cast_object_id en i))"

definition update_CastError :: "env \<Rightarrow> project_body \<Rightarrow> err" where
  \<comment> \<open>the CastError of the first path that does not cast\<close>
  "update_CastError en b =
     (case b_uncastable b of
        path # _ \<Rightarrow>
          \<lparr>err_name = ''CastError'',
           err_message = ''Cast failed for value at path `'' @ path @ ''`'',
           err_statusCode = None, err_code = None, err_errors = []\<rparr>
      | [] \<Rightarrow> CastError (or_else (b_createdBy b) []))"

definition apply_update :: "env \<Rightarrow> project_body \<Rightarrow> project \<Rightarrow> project" where
  \<comment> \<open>the update sets the paths that the body names, and the timestamp\<close>
  "apply_update en b p =
     p\<lparr>title := or_else (b_title b) (title p),
       slug := or_else (b_slug b) (slug p),
       client := or_else (b_client b) (client p),
       description := or_else (b_description b) (description p),
       shortDescription := or_else (b_shortDescription b) (shortDescription p),
       categories := or_else (b_categories b) (categories p),
       technologies := or_else (b_technologies b) (technologies p),
       features := or_else (b_features b) (features p),
       thumbnailImage := or_else (b_thumbnailImage b) (thumbnailImage p),
       galleryImages := or_else (b_galleryImages b) (galleryImages p),
       projectUrl := (case b_projectUrl b of None \<Rightarrow> projectUrl p | Some u \<Rightarrow> Some u),
       p_testimonial := (case b_testimonial b of None \<Rightarrow> p_testimonial p | Some t \<Rightarrow> Some t),
       featured := or_else (b_featured b) (featured p),
       completionDate := (case b_completionDate b of None \<Rightarrow> completionDate p | Some d \<Rightarrow> Some d),
       createdBy := or_else (b_createdBy b) (createdBy p),
       p_updatedAt := now en\<rparr>"

definition Project_findByIdAndUpdate ::
    "env \<Rightarrow> state \<Rightarrow> objid \<Rightarrow> project_body \<Rightarrow> err + state \<times> project option" where
  \<comment> \<open>\<open>Project.findByIdAndUpdate(id, body, {new: true, runValidators: true})\<close>:
      a query, which casts the id and the body, runs the update validators and no
      save hook; a body that names no path is answered by a plain find, without a
      write\<close>
  "Project_findByIdAndUpdate en st i b0 =
     (if \<not> cast_object_id en i then Inl (CastError i)
      else if \<not> castable_update en b0 then Inl (update_CastError en b0)
      else
        (let b = cast_project_body b0; msgs = validate_update b in
         if msgs \<noteq> [] then Inl (ValidationError msgs)
         else
           (case find (\<lambda>p. p_id p = i) (projects st) of
              None \<Rightarrow> Inr (st, None)
            | Some p \<Rightarrow>
                if sets_nothing b then Inr (st, Some p)
                else
                  (let p' = apply_update en b p in
                   if slug p' \<noteq> slug p \<and>
                      slug p' \<in> set (map slug (remove_first (\<lambda>q. p_id q = i) (projects st)))
                   then Inl (DuplicateKeyError (slug p'))
                   else Inr (st\<lparr>projects :=
                               update_first (\<lambda>q. p_id q = i) (\<lambda>_. p') (projects st)\<rparr>,
                             Some p')))))"

section \<open>The Project controller and its routes\<close>

definition createProject ::
    "env \<Rightarrow> state \<Rightarrow> project_body request \<Rightarrow> err + state \<times> response" where
  "createProject en st req =
     (case req_user req of
        None \<Rightarrow> Inl (null_property ''id'')
      | Some u \<Rightarrow>
          (case Project_create en st ((req_body req)\<lparr>b_createdBy := Some (u_id u)\<rparr>) of
             Inl e \<Rightarrow> Inl e
           | Inr (st', doc) \<Rightarrow>
               Inr (st', \<lparr>status = 201, success = True, body = ProjectData doc\<rparr>)))"

definition updateProject ::
    "env \<Rightarrow> state \<Rightarrow> project_body request \<Rightarrow> err + state \<times> response" where
  "updateProject en st req =
     (case Project_findById en st (param_id req) of
        Inl e \<Rightarrow> Inl e
      | Inr None \<Rightarrow>
          Inl (ErrorResponse (''Project not found with id of '' @ param_id req) 404)
      | Inr (Some p) \<Rightarrow>
          (case req_user req of
             None \<Rightarrow> Inl (null_property ''id'')
           | Some u \<Rightarrow>
               if createdBy p \<noteq> u_id u \<and> role u \<noteq> ''admin''
               then Inl (ErrorResponse
                      (''User '' @ u_id u @ '' is not authorized to update this project'') 401)
               else
                 (case Project_findByIdAndUpdate en st (param_id req) (req_body req) of
                    Inl e \<Rightarrow> Inl e
                  | Inr (st', found) \<Rightarrow>
                      Inr (st', \<lparr>status = 200, success = True,
                                body = (case found of None \<Rightarrow> NullData
                                        | Some p' \<Rightarrow> ProjectData p')\<rparr>))))"



definition put_project :: "env \<Rightarrow> state \<Rightarrow> project_body request \<Rightarrow> state \<times> response" where
  "put_project en st req =
     respond st (and_then (and_then (protect en st req) (authorize [''admin'']))
                   (updateProject en st))"


section \<open>The Contact model, the mailer and the Contact controller\<close>

record contact_body =
  cb_firstName :: "string option"
  cb_lastName :: "string option"
  cb_email :: "string option"
  cb_company :: "string option"
  cb_message :: "string option"

definition cast_contact_body :: "contact_body \<Rightarrow> contact_body" where
  \<comment> \<open>the setters of \<open>ContactSchema\<close>: \<open>trim\<close> on every string, \<open>lowercase\<close> on the email\<close>
  "cast_contact_body b =
     \<lparr>cb_firstName = map_option trim (cb_firstName b),
      cb_lastName = map_option trim (cb_lastName b),
      cb_email = map_option (\<lambda>e. toLowerCase (trim e)) (cb_email b),
      cb_company = map_option trim (cb_company b),
      cb_message = map_option trim (cb_message b)\<rparr>"

definition match_email :: "string \<Rightarrow> string option \<Rightarrow> string list" where
  \<comment> \<open>the \<open>match\<close> validator: an absent or empty value is left to \<open>required\<close>\<close>
  "match_email msg v =
     (case v of None \<Rightarrow> []
      | Some e \<Rightarrow> if e = [] \<or> test_whole email_pattern e then [] else [msg])"

definition status_enum :: "string list" where
  "status_enum = [''new'', ''contacted'', ''in-progress'', ''completed'', ''archived'']"

definition enum_status :: "string \<Rightarrow> string list" where
  "enum_status v =
     (if v \<in> set status_enum then []
      else [''`'' @ v @ ''` is not a valid enum value for path `status`.''])"

definition validate_contact :: "contact_body \<Rightarrow> string \<Rightarrow> string list" where
  "validate_contact b stat =
     required_string ''First name is required'' (cb_firstName b) @
     required_string ''Last name is required'' (cb_lastName b) @
     required_string ''Email is required'' (cb_email b) @
     match_email ''Please provide a valid email'' (cb_email b) @
     required_string ''Message is required'' (cb_message b) @
     enum_status stat"

definition new_Contact :: "env \<Rightarrow> contact_body \<Rightarrow> string \<Rightarrow> nat \<Rightarrow> contact" where
  \<comment> \<open>\<open>new Contact({firstName, lastName, email, company, message, status, dateSubmitted})\<close>
      with the default of \<open>lastUpdated\<close> and the timestamps\<close>
  "new_Contact en b st submitted =
     \<lparr>c_id = fresh_id en,
      firstName = or_else (cb_firstName b) [],
      lastName = or_else (cb_lastName b) [],
      email = or_else (cb_email b) [],
      company = cb_company b,
      message = or_else (cb_message b) [],
      c_status = st,
      dateSubmitted = submitted,
      lastUpdated = now en,
      c_createdAt = now en,
      c_updatedAt = now en\<rparr>"

definition Contact_save :: "env \<Rightarrow> state \<Rightarrow> contact_body \<Rightarrow> string \<Rightarrow> nat \<Rightarrow> err + state" where
  \<comment> \<open>\<open>new Contact(...)\<close> followed by \<open>save()\<close>: validation, then the insertion\<close>
  "Contact_save en st b0 stat submitted =
     (let b = cast_contact_body b0; msgs = validate_contact b stat in
      if msgs \<noteq> [] then Inl (ValidationError msgs)
      else Inr (st\<lparr>contacts := contacts st @ [new_Contact en b stat submitted]\<rparr>))"

definition mailOptions :: "env \<Rightarrow> string \<Rightarrow> string \<Rightarrow> string \<Rightarrow> mail" where
  "mailOptions en to subject text =
     \<lparr>mail_from = ''PeakTech <'' @ from_email en @ ''>'',
      mail_to = to, mail_subject = subject, mail_text = text\<rparr>"

definition sendEmail :: "env \<Rightarrow> state \<Rightarrow> string \<Rightarrow> string \<Rightarrow> string \<Rightarrow> err + state" where
  \<comment> \<open>the email utility: \<open>transporter.sendMail(mailOptions)\<close> delivers or rejects\<close>
  "sendEmail en st to subject text =
     (if smtp_delivers en (mailOptions en to subject text)
      then Inr (st\<lparr>outbox := outbox st @ [mailOptions en to subject text]\<rparr>)
      else Inl \<lparr>err_name = ''Error'', err_message = ''sendMail failed'',
               err_statusCode = None, err_code = None, err_errors = []\<rparr>)"

definition js_string :: "string option \<Rightarrow> string" where
  \<comment> \<open>a value inside a template string\<close>
  "js_string v = or_else v ''undefined''"

definition admin_mail_text :: "contact_body \<Rightarrow> string" where
  "admin_mail_text b =
     ''New inquiry from '' @ js_string (cb_firstName b) @ '' '' @ js_string (cb_lastName b) @
     '' ('' @ js_string (cb_email b) @ '')''"

definition user_mail_text :: "contact_body \<Rightarrow> string" where
  "user_mail_text b =
     ''Dear '' @ js_string (cb_firstName b) @
     '', thank you for reaching out to us. We'' @ [CHR 0x27] @ ''ll be in touch shortly.''"

definition submit_failed :: response where
  "submit_failed =
     \<lparr>status = 500, success = False,
      body = MessageText ''There was a problem submitting your form''\<rparr>"

definition submitContact :: "env \<Rightarrow> state \<Rightarrow> contact_body request \<Rightarrow> state \<times> response" where
  \<comment> \<open>one \<open>try\<close> block around the save and the two sends; its \<open>catch\<close> answers 500 and
      leaves what was done before the failure\<close>
  "submitContact en st req =
     (let b = req_body req in
      case Contact_save en st b ''new'' (now en) of
        Inl _ \<Rightarrow> (st, submit_failed)
      | Inr st1 \<Rightarrow>
          (case sendEmail en st1 ''admin@peaktech.com'' ''New Contact Form Submission''
                  (admin_mail_text b) of
             Inl _ \<Rightarrow> (st1, submit_failed)
           | Inr st2 \<Rightarrow>
               (case sendEmail en st2 (js_string (cb_email b))
                       ''Thank you for contacting PeakTech'' (user_mail_text b) of
                  Inl _ \<Rightarrow> (st2, submit_failed)
                | Inr st3 \<Rightarrow>
                    (st3, \<lparr>status = 201, success = True,
                           body = MessageText ''Contact form submitted successfully''\<rparr>))))"

text \<open>The two mails that \<open>submitContact\<close> hands to \<open>sendEmail\<close>, named for the theorems.\<close>

definition admin_notice :: "env \<Rightarrow> contact_body \<Rightarrow> mail" where
  "admin_notice en b =
     mailOptions en ''admin@peaktech.com'' ''New Contact Form Submission'' (admin_mail_text b)"

definition confirmation :: "env \<Rightarrow> contact_body \<Rightarrow> mail" where
  "confirmation en b =
     mailOptions en (js_string (cb_email b)) ''Thank you for contacting PeakTech''
       (user_mail_text b)"

definition respond_if_any ::
    "state \<Rightarrow> err + state \<times> response option \<Rightarrow> state \<times> response option" where
  \<comment> \<open>as \<open>respond\<close>, for a controller that may end without sending a response\<close>
  "respond_if_any st r = (case r of Inl e \<Rightarrow> (st, Some (errorHandler e)) | Inr x \<Rightarrow> x)"

definition contact_admin_route ::
    "(env \<Rightarrow> state \<Rightarrow> 'b request \<Rightarrow> err + state \<times> response option) \<Rightarrow>
     env \<Rightarrow> state \<Rightarrow> 'b request \<Rightarrow> state \<times> response option" where
  \<comment> \<open>the protected routes of \<open>contactRoutes.js\<close>, each
      \<open>protect, authorize('admin'), contactController.<method>\<close>\<close>
  "contact_admin_route controller en st req =
     respond_if_any st (and_then (and_then (protect en st req) (authorize [''admin'']))
                          (controller en st))"

definition getContacts :: "env \<Rightarrow> state \<Rightarrow> 'b request \<Rightarrow> err + state \<times> response option" where
  \<comment> \<open>the body of \<open>getContacts\<close> is a comment: nothing is read and nothing is sent\<close>
  "getContacts en st req = Inr (st, None)"

definition Contact_findById :: "env \<Rightarrow> state \<Rightarrow> objid \<Rightarrow> err + contact option" where
  "Contact_findById en st i =
     (if cast_object_id en i then Inr (find (\<lambda>c. c_id c = i) (contacts st))
      else Inl (CastError i))"

definition getContact :: "env \<Rightarrow> state \<Rightarrow> 'b request \<Rightarrow> err + state \<times> response option" where
  \<comment> \<open>Modelled from the spec: \<open>contactController.getContact\<close> is mounted by the routes
      and defined nowhere in the source. The spec: \<open>get\<close>, CRUD analogous to the
      Projects, 404 when the record is absent.\<close>
  "getContact en st req =
     (case Contact_findById en st (param_id req) of
        Inl e \<Rightarrow> Inl e
      | Inr None \<Rightarrow>
          Inl (ErrorResponse (''Contact not found with id of '' @ param_id req) 404)
      | Inr (Some c) \<Rightarrow>
          Inr (st, Some \<lparr>status = 200, success = True, body = ContactData c\<rparr>))"

definition updateContact ::
    "env \<Rightarrow> state \<Rightarrow> string request \<Rightarrow> err + state \<times> response option" where
  \<comment> \<open>Modelled from the spec: \<open>contactController.updateContact\<close> is mounted by the
      routes and defined nowhere in the source. The spec: \<open>updateStatus\<close> changes the
      status, a member of the enum, and additionally sets \<open>lastUpdated\<close>; nothing
      else of a Contact changes after its creation.\<close>
  "updateContact en st req =
     (case Contact_findById en st (param_id req) of
        Inl e \<Rightarrow> Inl e
      | Inr None \<Rightarrow>
          Inl (ErrorResponse (''Contact not found with id of '' @ param_id req) 404)
      | Inr (Some c) \<Rightarrow>
          if enum_status (req_body req) \<noteq> [] then Inl (ValidationError (enum_status (req_body req)))
          else
            (let c' = c\<lparr>c_status := req_body req, lastUpdated := now en\<rparr> in
             Inr (st\<lparr>contacts := update_first (\<lambda>d. c_id d = param_id req) (\<lambda>_. c') (contacts st)\<rparr>,
                  Some \<lparr>status = 200, success = True, body = ContactData c'\<rparr>)))"

definition deleteContact :: "env \<Rightarrow> state \<Rightarrow> 'b request \<Rightarrow> err + state \<times> response option" where
  \<comment> \<open>Modelled from the spec: \<open>contactController.deleteContact\<close> is mounted by the
      routes and defined nowhere in the source. The spec: \<open>delete\<close>, CRUD analogous to
      the Projects.\<close>
  "deleteContact en st req =
     (case Contact_findById en st (param_id req) of
        Inl e \<Rightarrow> Inl e
      | Inr None \<Rightarrow>
          Inl (ErrorResponse (''Contact not found with id of '' @ param_id req) 404)
      | Inr (Some c) \<Rightarrow>
          Inr (st\<lparr>contacts := remove_first (\<lambda>d. c_id d = param_id req) (contacts st)\<rparr>,
               Some \<lparr>status = 200, success = True, body = EmptyData\<rparr>))"

section \<open>Image upload\<close>

record upload_file =
  originalname :: string
  mimetype :: string
  file_size :: nat

text \<open>
  The names of the image types, and what it means for a string to contain one of them.
\<close>

definition image_names :: "string list" where
  "image_names = [''jpeg'', ''jpg'', ''png'', ''webp'']"

definition contains_name :: "string \<Rightarrow> bool" where
  "contains_name s = (\<exists>n \<in> set image_names. sublist n s)"

definition plain_error :: "string \<Rightarrow> err" where
  \<comment> \<open>\<open>new Error(msg)\<close>\<close>
  "plain_error msg =
     \<lparr>err_name = ''Error'', err_message = msg, err_statusCode = None,
      err_code = None, err_errors = []\<rparr>"

definition checkFileType :: "upload_file \<Rightarrow> err + bool" where
  "checkFileType file =
     (let extname = test_anywhere filetypes (toLowerCase (path_extname (originalname file)));
          mimetype_ok = test_anywhere filetypes (mimetype file)
      in if mimetype_ok \<and> extname then Inr True
         else Inl (plain_error ''Only image files are allowed''))"

definition storage_filename :: "env \<Rightarrow> upload_file \<Rightarrow> string" where
  \<comment> \<open>the \<open>filename\<close> function of the disk storage\<close>
  "storage_filename en file =
     ''project-'' @ show_nat (now en) @ path_extname (originalname file)"

definition upload :: "env \<Rightarrow> state \<Rightarrow> upload_file option \<Rightarrow> err + state \<times> string option" where
  \<comment> \<open>\<open>multer({storage, limits: {fileSize: 5000000}, fileFilter}).single('image')\<close>:
      without a file in the field nothing happens; the filter sees the file first;
      a file of more bytes than the limit is cut off with an error and not kept;
      otherwise it is written under its storage name, which \<open>req.file.filename\<close> holds\<close>
  "upload en st field =
     (case field of
        None \<Rightarrow> Inr (st, None)
      | Some file \<Rightarrow>
          (case checkFileType file of
             Inl e \<Rightarrow> Inl e
           | Inr _ \<Rightarrow>
               if file_size file > 5000000 then Inl (plain_error ''File too large'')
               else Inr (st\<lparr>uploads := uploads st @ [storage_filename en file]\<rparr>,
                         Some (storage_filename en file))))"

definition uploadProjectImage ::
    "env \<Rightarrow> state \<Rightarrow> upload_file option request \<Rightarrow> err + state \<times> response" where
  "uploadProjectImage en st req =
     (case upload en st (req_body req) of
        Inl e \<Rightarrow> Inl (ErrorResponse (err_message e) 400)
      | Inr (st', None) \<Rightarrow> Inl (ErrorResponse ''Please upload a file'' 400)
      | Inr (st', Some filename) \<Rightarrow>
          Inr (st', \<lparr>status = 200, success = True,
                    body = FileData filename (''/uploads/projects/'' @ filename)\<rparr>))"

definition upload_image :: "env \<Rightarrow> state \<Rightarrow> upload_file option request \<Rightarrow> state \<times> response" where
  \<comment> \<open>the upload middleware on the application, whose last handler is \<open>errorHandler\<close>\<close>
  "upload_image en st req = respond st (uploadProjectImage en st req)"

section \<open>Concrete inputs\<close>

text \<open>Users, a store and requests on which the theorems below are evaluated.\<close>

definition ex_admin :: user where
  "ex_admin = \<lparr>u_id = ''u1'', username = ''ada'', u_email = ''ada@peaktech.com'',
     password = ''hash1'', role = ''admin'', u_createdAt = 1, lastLogin = 2\<rparr>"

definition ex_editor :: user where
  "ex_editor = \<lparr>u_id = ''u2'', username = ''ed'', u_email = ''ed@peaktech.com'',
     password = ''hash2'', role = ''editor'', u_createdAt = 1, lastLogin = 3\<rparr>"

definition ex_env :: env where
  "ex_env = \<lparr>jwt_verify = (\<lambda>t. if t = ''token-u1'' then Some ''u1''
                               else if t = ''token-u2'' then Some ''u2''
                               else if t = ''token-u9'' then Some ''u9'' else None),
     cast_object_id = (\<lambda>i. i \<noteq> []),
     smtp_delivers = (\<lambda>m. True),
     now = 100, fresh_id = ''n1'', from_email = ''noreply@peaktech.com''\<rparr>"

definition ex_project :: project where
  "ex_project = \<lparr>p_id = ''p1'', title = ''Old Title'', slug = ''old-title'',
     client = ''Acme'', description = ''A long text'', shortDescription = ''Short'',
     categories = [''Web''], technologies = [''Node''], features = [],
     thumbnailImage = ''/uploads/projects/a.png'', galleryImages = [],
     projectUrl = None, p_testimonial = None, featured = False, completionDate = None,
     createdBy = ''u2'', p_createdAt = 5, p_updatedAt = 5\<rparr>"

definition ex_state :: state where
  "ex_state = \<lparr>users = [ex_admin, ex_editor], projects = [ex_project], contacts = [],
     outbox = [], uploads = []\<rparr>"

definition no_fields :: project_body where
  "no_fields = \<lparr>b_title = None, b_slug = None, b_client = None, b_description = None,
     b_shortDescription = None, b_categories = None, b_technologies = None,
     b_features = None, b_thumbnailImage = None, b_galleryImages = None,
     b_projectUrl = None, b_testimonial = None, b_featured = None,
     b_completionDate = None, b_createdBy = None, b_uncastable = []\<rparr>"

definition ex_new_project :: project_body where
  "ex_new_project = no_fields\<lparr>b_title := Some ''AI & Ops: v2!'', b_client := Some ''Acme'',
     b_description := Some ''Automation'', b_shortDescription := Some ''Ops'',
     b_categories := Some [''AI''], b_technologies := Some [''Python''],
     b_thumbnailImage := Some ''/uploads/projects/b.png''\<rparr>"

definition bearer :: "string \<Rightarrow> string \<Rightarrow> 'b \<Rightarrow> 'b request" where
  "bearer token i b = \<lparr>authorization = Some (''Bearer '' @ token), cookie_token = None,
     param_id = i, req_body = b, req_user = None\<rparr>"

definition anonymous :: "string \<Rightarrow> 'b \<Rightarrow> 'b request" where
  "anonymous i b = \<lparr>authorization = None, cookie_token = None,
     param_id = i, req_body = b, req_user = None\<rparr>"

definition ex_contact :: contact_body where
  "ex_contact = \<lparr>cb_firstName = Some ''Jane'', cb_lastName = Some ''Doe'',
     cb_email = Some ''Jane.Doe@example.com'', cb_company = None,
     cb_message = Some ''Please call me''\<rparr>"

definition ex_env_smtp_down :: env where
  "ex_env_smtp_down = ex_env\<lparr>smtp_delivers := (\<lambda>m. False)\<rparr>"

definition ex_png :: upload_file where
  "ex_png = \<lparr>originalname = ''Team Photo.PNG'', mimetype = ''image/png'', file_size = 204800\<rparr>"

definition ex_stored_contact :: contact where
  "ex_stored_contact = \<lparr>c_id = ''c1'', firstName = ''Jane'', lastName = ''Doe'',
     email = ''jane.doe@example.com'', company = None, message = ''Please call me'',
     c_status = ''new'', dateSubmitted = 50, lastUpdated = 50, c_createdAt = 50,
     c_updatedAt = 50\<rparr>"

section \<open>Properties of the string layer\<close>

lemma filter_dropWhile_neg: "filter (\<lambda>c. \<not> p c) (dropWhile p cs) = filter (\<lambda>c. \<not> p c) cs"
  by (induction cs) auto

lemma replace_runs_delete: "replace_runs p [] s = filter (\<lambda>c. \<not> p c) s"
  by (induction p "[] :: string" s rule: replace_runs.induct)
     (auto simp: filter_dropWhile_neg)

lemma replace_runs_skip:
  "\<forall>x \<in> set xs. \<not> p x \<Longrightarrow> replace_runs p r (xs @ ys) = xs @ replace_runs p r ys"
  by (induction xs) auto

lemma replace_runs_blocks:
  "replace_runs p r s =
     concat (map (\<lambda>b. case b of [] \<Rightarrow> [] | c # _ \<Rightarrow> if p c then r else b) (maximal_runs p s))"
proof (induction "length s" arbitrary: s rule: less_induct)
  case less
  show ?case
  proof (cases s)
    case Nil
    then show ?thesis by simp
  next
    case (Cons c cs)
    show ?thesis
    proof (cases "p c")
      case True
      have shorter: "length (dropWhile p cs) < length s"
        using Cons by (simp add: length_dropWhile_le le_imp_less_Suc)
      have same: "(\<lambda>d. p d = p c) = p" using True by auto
      show ?thesis
        using less [OF shorter] True Cons by (simp add: same)
    next
      case False
      have same: "(\<lambda>d. p d = p c) = (\<lambda>d. \<not> p d)" using False by auto
      let ?pre = "takeWhile (\<lambda>d. \<not> p d) cs"
      let ?post = "dropWhile (\<lambda>d. \<not> p d) cs"
      have shorter: "length ?post < length s"
        using Cons by (simp add: length_dropWhile_le le_imp_less_Suc)
      have clean: "\<forall>x \<in> set (c # ?pre). \<not> p x"
        using False by (auto dest: set_takeWhileD)
      have "replace_runs p r s = replace_runs p r ((c # ?pre) @ ?post)"
        using Cons by simp
      also have "\<dots> = (c # ?pre) @ replace_runs p r ?post"
        using clean by (rule replace_runs_skip)
      finally show ?thesis
        using less [OF shorter] False Cons by (simp add: same)
    qed
  qed
qed

lemma slugify_refines: "slugify s = derive_slug s"
proof -
  have sp: "(\<lambda>b. case b of [] \<Rightarrow> [] | c # _ \<Rightarrow> if c = CHR '' '' then ''-'' else b) = hyphen_for_spaces"
    by (rule ext) (simp add: hyphen_for_spaces_def)
  show ?thesis
    unfolding slugify_def derive_slug_def toLowerCase_def
    by (simp add: replace_runs_delete replace_runs_blocks [where p = "\<lambda>c. c = CHR '' ''"] sp)
qed

section \<open>Project slugs\<close>

text \<open>
  Claim C1. For every valid Project payload, \<open>createProject\<close> stores a Project whose
  slug is obtained from the (trimmed) title by lowercasing it, deleting every character
  that is neither a word character nor a space, and replacing each maximal run of
  spaces with a single hyphen; the title \<open>AI & Ops: v2!\<close> yields \<open>ai-ops-v2\<close>.
  Valid means: the acting user is attached to the request, the validators of the
  schema accept the payload, and the unique index on \<open>slug\<close> has no entry for the
  derived slug.
\<close>

theorem create_stores_derived_slug:
  assumes "req_user req = Some u"
    and "b_title (req_body req) = Some t"
    and "validate_project (cast_project_body ((req_body req)\<lparr>b_createdBy := Some (u_id u)\<rparr>)) = []"
    and "derive_slug (trim t) \<notin> set (map slug (projects st))"
  shows "(\<exists>doc. createProject en st req =
            Inr (st\<lparr>projects := projects st @ [doc]\<rparr>,
                 \<lparr>status = 201, success = True, body = ProjectData doc\<rparr>) \<and>
            title doc = trim t \<and> slug doc = derive_slug (trim t)) \<and>
         derive_slug ''AI & Ops: v2!'' = ''ai-ops-v2''"
proof
  let ?b = "cast_project_body ((req_body req)\<lparr>b_createdBy := Some (u_id u)\<rparr>)"
  let ?doc = "pre_save (new_Project en ?b)"
  have t: "title ?doc = trim t"
    using assms(2) by (simp add: pre_save_def new_Project_def cast_project_body_def or_else_def)
  have s: "slug ?doc = derive_slug (trim t)"
    using t by (simp add: pre_save_def slugify_refines)
  have "createProject en st req =
          Inr (st\<lparr>projects := projects st @ [?doc]\<rparr>,
               \<lparr>status = 201, success = True, body = ProjectData ?doc\<rparr>)"
    using assms(1,3,4) s
    by (simp add: createProject_def Project_create_def Let_def)
  with t s show "\<exists>doc. createProject en st req =
            Inr (st\<lparr>projects := projects st @ [doc]\<rparr>,
                 \<lparr>status = 201, success = True, body = ProjectData doc\<rparr>) \<and>
            title doc = trim t \<and> slug doc = derive_slug (trim t)"
    by blast
next
  show "derive_slug ''AI & Ops: v2!'' = ''ai-ops-v2''"
    unfolding slugify_refines [symmetric] by code_simp
qed

theorem create_stores_derived_slug_witness:
  "\<exists>doc. createProject ex_env ex_state ((bearer ''token-u1'' [] ex_new_project)\<lparr>req_user := Some ex_admin\<rparr>) =
            Inr (ex_state\<lparr>projects := projects ex_state @ [doc]\<rparr>,
                 \<lparr>status = 201, success = True, body = ProjectData doc\<rparr>) \<and>
         title doc = ''AI & Ops: v2!'' \<and> slug doc = ''ai-ops-v2''"
proof -
  let ?req = "(bearer ''token-u1'' [] ex_new_project)\<lparr>req_user := Some ex_admin\<rparr>"
  have h1: "req_user ?req = Some ex_admin" by simp
  have h2: "b_title (req_body ?req) = Some ''AI & Ops: v2!''"
    by (simp add: bearer_def ex_new_project_def)
  have h3: "validate_project (cast_project_body ((req_body ?req)\<lparr>b_createdBy := Some (u_id ex_admin)\<rparr>)) = []"
    by code_simp
  have tr: "trim ''AI & Ops: v2!'' = ''AI & Ops: v2!''" by code_simp
  have h4: "derive_slug (trim ''AI & Ops: v2!'') \<notin> set (map slug (projects ex_state))"
    unfolding slugify_refines [symmetric] by code_simp
  from create_stores_derived_slug [OF h1 h2 h3 h4, of ex_env]
  show ?thesis by (auto simp: tr)
qed

section \<open>Middleware\<close>

lemma errorHandler_ErrorResponse:
  "sc \<noteq> 0 \<Longrightarrow> msg \<noteq> [] \<Longrightarrow>
     errorHandler (ErrorResponse msg sc) = \<lparr>status = sc, success = False, body = ErrorText msg\<rparr>"
  by (simp add: errorHandler_def ErrorResponse_def)

lemma errorHandler_null_property:
  "errorHandler (null_property p) =
     \<lparr>status = 500, success = False,
      body = ErrorText (''Cannot read property '' @ [CHR 0x27] @ p @ [CHR 0x27] @ '' of null'')\<rparr>"
  by (simp add: errorHandler_def null_property_def TypeError_def)


lemma protect_user:
  "protect en st req = Inr req' \<Longrightarrow> req' = req\<lparr>req_user := req_user req'\<rparr>"
  by (auto simp: protect_def Let_def split: if_splits option.splits sum.splits)

lemma authorize_admin:
  "req_user req = Some u \<Longrightarrow>
     authorize [''admin''] req =
       (if role u = ''admin'' then Inr req
        else Inl (ErrorResponse
               (''User role '' @ role u @ '' is not authorized to access this route'') 403))"
  by (simp add: authorize_def)

text \<open>
  Claim C8. For every duplicate-key error of the storage layer (its \<open>code\<close> is 11000;
  its name is that of a storage error, not \<open>ValidationError\<close>), the central error
  handler answers with status 400 and the message \<open>Duplicate field value entered\<close> in
  the envelope \<open>{success: false, error: ...}\<close>; the message of the storage layer is
  not in the response.
\<close>

theorem duplicate_key_response:
  "err_code e = Some 11000 \<Longrightarrow> err_name e \<noteq> ''ValidationError'' \<Longrightarrow>
     errorHandler e =
       \<lparr>status = 400, success = False, body = ErrorText ''Duplicate field value entered''\<rparr>"
  by (simp add: errorHandler_def)

theorem duplicate_key_response_witness:
  "err_code (DuplicateKeyError ''old-title'') = Some 11000 \<and>
   err_name (DuplicateKeyError ''old-title'') \<noteq> ''ValidationError'' \<and>
   errorHandler (DuplicateKeyError ''old-title'') =
     \<lparr>status = 400, success = False, body = ErrorText ''Duplicate field value entered''\<rparr>"
proof -
  have c: "err_code (DuplicateKeyError ''old-title'') = Some 11000"
    by (simp add: DuplicateKeyError_def)
  have n: "err_name (DuplicateKeyError ''old-title'') \<noteq> ''ValidationError''"
    by (simp add: DuplicateKeyError_def)
  from duplicate_key_response [OF c n] c n show ?thesis by simp
qed

text \<open>
  Claim C10. A request whose token verifies while the decoded user id belongs to no
  User passes \<open>protect\<close> with a null user attached, instead of being rejected with
  401; the role check that follows reads the role of that null user, which throws,
  and the central handler answers 500.
\<close>

theorem missing_user_passes_protect:
  assumes "request_token req = Some tok" and "tok \<noteq> []"
    and "jwt_verify en tok = Some uid" and "cast_object_id en uid"
    and "find (\<lambda>u. u_id u = uid) (users st) = None"
  shows "protect en st req = Inr (req\<lparr>req_user := None\<rparr>) \<and>
         authorize roles (req\<lparr>req_user := None\<rparr>) = Inl (null_property ''role'') \<and>
         status (errorHandler (null_property ''role'')) = 500 \<and>
         and_then (protect en st req) (authorize roles) = Inl (null_property ''role'')"
  using assms
  by (simp add: protect_def truthy_def User_findById_def authorize_def and_then_def
        errorHandler_null_property)

theorem missing_user_passes_protect_witness:
  "protect ex_env ex_state (bearer ''token-u9'' ''p1'' no_fields) =
     Inr ((bearer ''token-u9'' ''p1'' no_fields)\<lparr>req_user := None\<rparr>) \<and>
   authorize [''admin''] ((bearer ''token-u9'' ''p1'' no_fields)\<lparr>req_user := None\<rparr>) =
     Inl (null_property ''role'') \<and>
   status (snd (put_project ex_env ex_state (bearer ''token-u9'' ''p1'' no_fields))) = 500"
proof -
  let ?req = "bearer ''token-u9'' ''p1'' no_fields"
  have h1: "request_token ?req = Some ''token-u9''" by code_simp
  have h2: "''token-u9'' \<noteq> []" by simp
  have h3: "jwt_verify ex_env ''token-u9'' = Some ''u9''" by code_simp
  have h4: "cast_object_id ex_env ''u9''" by code_simp
  have h5: "find (\<lambda>u. u_id u = ''u9'') (users ex_state) = None" by code_simp
  from missing_user_passes_protect [OF h1 h2 h3 h4 h5, of "[''admin'']"]
  show ?thesis
    by (simp add: put_project_def respond_def and_then_def)
qed

section \<open>Authorisation of the Project routes\<close>




lemma protect_keeps_param: "protect en st req = Inr req' \<Longrightarrow> param_id req' = param_id req \<and> req_body req' = req_body req"
  by (auto simp: protect_def Let_def split: if_splits option.splits sum.splits)













lemma update_leaves_slug:
  assumes "b_slug b = None"
    and "find (\<lambda>p. p_id p = i) (projects st) = Some p"
    and "Project_findByIdAndUpdate en st i b = Inr (st', Some p')"
  shows "slug p' = slug p"
  using assms
  by (auto simp: Project_findByIdAndUpdate_def Let_def apply_update_def or_else_def
        cast_project_body_def split: if_splits)

text \<open>
  Claim C2 (the slug is derived again whenever the title changes) does not hold of the
  code: \<open>updateProject\<close> writes through \<open>findByIdAndUpdate\<close>, which runs no save
  hook. An admin who changes the title of a Project with a derived slug gets 200, and
  the stored slug is still the one of the old title.
\<close>

theorem update_keeps_stale_slug:
  "slug ex_project = derive_slug (title ex_project) \<and>
   put_project ex_env ex_state (bearer ''token-u1'' ''p1'' (no_fields\<lparr>b_title := Some ''New Title''\<rparr>)) =
     (ex_state\<lparr>projects := [ex_project\<lparr>title := ''New Title'', p_updatedAt := 100\<rparr>]\<rparr>,
      \<lparr>status = 200, success = True,
       body = ProjectData (ex_project\<lparr>title := ''New Title'', p_updatedAt := 100\<rparr>)\<rparr>) \<and>
   slug (ex_project\<lparr>title := ''New Title'', p_updatedAt := 100\<rparr>) = ''old-title'' \<and>
   derive_slug ''New Title'' = ''new-title''"
  unfolding slugify_refines [symmetric] by code_simp

section \<open>Contact submission\<close>

lemma Contact_save_cases:
  "Contact_save en st b stat d =
     (if validate_contact (cast_contact_body b) stat = []
      then Inr (st\<lparr>contacts := contacts st @ [new_Contact en (cast_contact_body b) stat d]\<rparr>)
      else Inl (ValidationError (validate_contact (cast_contact_body b) stat)))"
  by (simp add: Contact_save_def Let_def)

lemma submitContact_valid:
  assumes "validate_contact (cast_contact_body (req_body req)) ''new'' = []"
  shows "submitContact en st req =
     (let b = req_body req;
          st1 = st\<lparr>contacts := contacts st @ [new_Contact en (cast_contact_body b) ''new'' (now en)]\<rparr>
      in if \<not> smtp_delivers en (admin_notice en b) then (st1, submit_failed)
         else if \<not> smtp_delivers en (confirmation en b)
         then (st1\<lparr>outbox := outbox st @ [admin_notice en b]\<rparr>, submit_failed)
         else (st1\<lparr>outbox := outbox st @ [admin_notice en b, confirmation en b]\<rparr>,
               \<lparr>status = 201, success = True,
                body = MessageText ''Contact form submitted successfully''\<rparr>))"
  using assms
  by (simp add: submitContact_def Contact_save_cases sendEmail_def admin_notice_def
        confirmation_def Let_def)

lemma submitContact_invalid:
  assumes "validate_contact (cast_contact_body (req_body req)) ''new'' \<noteq> []"
  shows "submitContact en st req = (st, submit_failed)"
  using assms by (simp add: submitContact_def Contact_save_cases Let_def)

text \<open>
  Claim C4, amended. For every well-formed contact payload (after the setters of the
  schema its validators report nothing), \<open>submitContact\<close> persists exactly one new
  Contact, whose status is \<open>new\<close>; the response reports \<open>success: true\<close>, with status
  201, exactly when both notification mails are delivered, and is the generic 500
  response with \<open>success: false\<close> otherwise.
\<close>

theorem submit_persists_new_contact:
  assumes "validate_contact (cast_contact_body (req_body req)) ''new'' = []"
  shows "contacts (fst (submitContact en st req)) =
           contacts st @ [new_Contact en (cast_contact_body (req_body req)) ''new'' (now en)] \<and>
         c_status (new_Contact en (cast_contact_body (req_body req)) ''new'' (now en)) = ''new'' \<and>
         (success (snd (submitContact en st req)) \<longleftrightarrow>
            smtp_delivers en (admin_notice en (req_body req)) \<and>
            smtp_delivers en (confirmation en (req_body req))) \<and>
         (success (snd (submitContact en st req)) \<longrightarrow> status (snd (submitContact en st req)) = 201) \<and>
         (\<not> (smtp_delivers en (admin_notice en (req_body req)) \<and>
             smtp_delivers en (confirmation en (req_body req))) \<longrightarrow>
            snd (submitContact en st req) =
              \<lparr>status = 500, success = False,
               body = MessageText ''There was a problem submitting your form''\<rparr>)"
  unfolding submitContact_valid [OF assms]
  by (simp add: Let_def submit_failed_def new_Contact_def)

theorem submit_persists_new_contact_witness:
  "length (contacts (fst (submitContact ex_env ex_state (anonymous [] ex_contact)))) =
     length (contacts ex_state) + 1 \<and>
   map c_status (contacts (fst (submitContact ex_env ex_state (anonymous [] ex_contact)))) = [''new''] \<and>
   map email (contacts (fst (submitContact ex_env ex_state (anonymous [] ex_contact)))) = [''jane.doe@example.com''] \<and>
   success (snd (submitContact ex_env ex_state (anonymous [] ex_contact))) \<and>
   status (snd (submitContact ex_env ex_state (anonymous [] ex_contact))) = 201 \<and>
   snd (submitContact ex_env_smtp_down ex_state (anonymous [] ex_contact)) =
     \<lparr>status = 500, success = False,
      body = MessageText ''There was a problem submitting your form''\<rparr>"
proof -
  let ?req = "anonymous [] ex_contact"
  have v: "validate_contact (cast_contact_body (req_body ?req)) ''new'' = []"
    by code_simp
  have s: "smtp_delivers ex_env (admin_notice ex_env (req_body ?req)) \<and>
           smtp_delivers ex_env (confirmation ex_env (req_body ?req))"
    by (simp add: ex_env_def)
  have down: "\<not> (smtp_delivers ex_env_smtp_down (admin_notice ex_env_smtp_down (req_body ?req)) \<and>
           smtp_delivers ex_env_smtp_down (confirmation ex_env_smtp_down (req_body ?req)))"
    by (simp add: ex_env_smtp_down_def)
  have c: "contacts ex_state = []" by (simp add: ex_state_def)
  have e: "email (new_Contact ex_env (cast_contact_body (req_body ?req)) ''new'' (now ex_env)) = ''jane.doe@example.com''"
    by code_simp
  from submit_persists_new_contact [OF v, of ex_env_smtp_down ex_state] down
  have failed: "snd (submitContact ex_env_smtp_down ex_state ?req) =
     \<lparr>status = 500, success = False,
      body = MessageText ''There was a problem submitting your form''\<rparr>"
    by blast
  from submit_persists_new_contact [OF v, of ex_env ex_state] s c e failed
  show ?thesis by simp
qed

text \<open>
  Claim C4 as stated fails: a well-formed payload, sent while the SMTP transporter
  rejects mails, is answered 500 with \<open>success: false\<close>; the Contact is stored.
\<close>

theorem submit_without_mail_counterexample:
  "validate_contact (cast_contact_body ex_contact) ''new'' = [] \<and>
   test_whole email_pattern ''jane.doe@example.com'' \<and>
   success (snd (submitContact ex_env_smtp_down ex_state (anonymous [] ex_contact))) = False \<and>
   status (snd (submitContact ex_env_smtp_down ex_state (anonymous [] ex_contact))) = 500 \<and>
   length (contacts (fst (submitContact ex_env_smtp_down ex_state (anonymous [] ex_contact)))) = 1"
  by code_simp


text \<open>
  Claim C5. The success response of \<open>submitContact\<close> is produced only after both
  sends have completed: whenever the response reports success, the mail to the fixed
  administrative address and the mail to the submitter have been delivered, in this
  order, and the Contact is stored. If the payload is well-formed and either send
  fails, the response is the generic 500 and the Contact that was saved before the
  sends is still stored.
\<close>

theorem notifications_precede_success:
  "(success (snd (submitContact en st req)) \<longrightarrow>
      smtp_delivers en (admin_notice en (req_body req)) \<and>
      smtp_delivers en (confirmation en (req_body req)) \<and>
      outbox (fst (submitContact en st req)) =
        outbox st @ [admin_notice en (req_body req), confirmation en (req_body req)] \<and>
      contacts (fst (submitContact en st req)) =
        contacts st @ [new_Contact en (cast_contact_body (req_body req)) ''new'' (now en)]) \<and>
   (validate_contact (cast_contact_body (req_body req)) ''new'' = [] \<and>
    (\<not> smtp_delivers en (admin_notice en (req_body req)) \<or>
     \<not> smtp_delivers en (confirmation en (req_body req))) \<longrightarrow>
      snd (submitContact en st req) = submit_failed \<and>
      status submit_failed = 500 \<and>
      contacts (fst (submitContact en st req)) =
        contacts st @ [new_Contact en (cast_contact_body (req_body req)) ''new'' (now en)])"
proof (cases "validate_contact (cast_contact_body (req_body req)) ''new'' = []")
  case True
  show ?thesis
    unfolding submitContact_valid [OF True]
    by (simp add: Let_def submit_failed_def)
next
  case False
  show ?thesis
    unfolding submitContact_invalid [OF False] using False
    by (simp add: submit_failed_def)
qed

theorem notifications_precede_success_witness:
  "success (snd (submitContact ex_env ex_state (anonymous [] ex_contact))) \<and>
   map mail_to (outbox (fst (submitContact ex_env ex_state (anonymous [] ex_contact)))) =
     [''admin@peaktech.com'', ''Jane.Doe@example.com''] \<and>
   snd (submitContact ex_env_smtp_down ex_state (anonymous [] ex_contact)) = submit_failed \<and>
   map c_status (contacts (fst (submitContact ex_env_smtp_down ex_state (anonymous [] ex_contact)))) =
     [''new'']"
proof -
  let ?req = "anonymous [] ex_contact"
  have ok: "success (snd (submitContact ex_env ex_state ?req))" by code_simp
  have v: "validate_contact (cast_contact_body (req_body ?req)) ''new'' = []" by code_simp
  have down: "\<not> smtp_delivers ex_env_smtp_down (admin_notice ex_env_smtp_down (req_body ?req))"
    by (simp add: ex_env_smtp_down_def)
  have o: "outbox ex_state = []" and c: "contacts ex_state = []"
    by (simp_all add: ex_state_def)
  have t: "mail_to (admin_notice ex_env (req_body ?req)) = ''admin@peaktech.com''"
    "mail_to (confirmation ex_env (req_body ?req)) = ''Jane.Doe@example.com''"
    by (simp_all add: admin_notice_def confirmation_def mailOptions_def anonymous_def
          ex_contact_def js_string_def or_else_def)
  from notifications_precede_success [of ex_env ex_state ?req] ok
  have 1: "outbox (fst (submitContact ex_env ex_state ?req)) =
        outbox ex_state @ [admin_notice ex_env (req_body ?req), confirmation ex_env (req_body ?req)]"
    by blast
  from notifications_precede_success [of ex_env_smtp_down ex_state ?req] v down
  have 2: "snd (submitContact ex_env_smtp_down ex_state ?req) = submit_failed \<and>
      contacts (fst (submitContact ex_env_smtp_down ex_state ?req)) =
        contacts ex_state @ [new_Contact ex_env_smtp_down (cast_contact_body (req_body ?req)) ''new'' (now ex_env_smtp_down)]"
    by blast
  from ok 1 2 show ?thesis by (simp add: o c t new_Contact_def)
qed

text \<open>
  Claim C6, amended. For every contact payload whose email, after the setters \<open>trim\<close>
  and \<open>lowercase\<close>, does not match the email pattern, the save is rejected by the
  model with a ValidationError, no Contact is persisted and no mail is sent (the store
  is unchanged), and \<open>submitContact\<close> answers with its generic 500 response.
\<close>

theorem invalid_email_rejected:
  assumes "cb_email (req_body req) = Some e"
    and "\<not> test_whole email_pattern (toLowerCase (trim e))"
  shows "(\<exists>msgs. msgs \<noteq> [] \<and>
            Contact_save en st (req_body req) ''new'' (now en) = Inl (ValidationError msgs)) \<and>
         submitContact en st req = (st, submit_failed) \<and>
         status submit_failed = 500 \<and> success submit_failed = False"
proof -
  have "required_string ''Email is required'' (Some (toLowerCase (trim e))) @
        match_email ''Please provide a valid email'' (Some (toLowerCase (trim e))) \<noteq> []"
    using assms(2) by (simp add: required_string_def match_email_def)
  then have bad: "validate_contact (cast_contact_body (req_body req)) ''new'' \<noteq> []"
    using assms(1) by (auto simp: validate_contact_def cast_contact_body_def)
  have "Contact_save en st (req_body req) ''new'' (now en) =
          Inl (ValidationError (validate_contact (cast_contact_body (req_body req)) ''new''))"
    using bad by (simp add: Contact_save_cases)
  with bad have "\<exists>msgs. msgs \<noteq> [] \<and>
            Contact_save en st (req_body req) ''new'' (now en) = Inl (ValidationError msgs)"
    by blast
  then show ?thesis
    using submitContact_invalid [OF bad] by (simp add: submit_failed_def)
qed

theorem invalid_email_rejected_witness:
  "\<not> test_whole email_pattern ''not-an-email'' \<and>
   submitContact ex_env ex_state (anonymous [] (ex_contact\<lparr>cb_email := Some ''not-an-email''\<rparr>)) =
     (ex_state, submit_failed)"
proof -
  let ?req = "anonymous [] (ex_contact\<lparr>cb_email := Some ''not-an-email''\<rparr>)"
  have h1: "cb_email (req_body ?req) = Some ''not-an-email''"
    by (simp add: anonymous_def)
  have tl: "toLowerCase (trim ''not-an-email'') = ''not-an-email''" by code_simp
  have h2: "\<not> test_whole email_pattern ''not-an-email''" by code_simp
  from invalid_email_rejected [OF h1, of ex_env ex_state] h2 tl
  show ?thesis by simp
qed

text \<open>
  Claim C6 as stated fails in the status of the rejection: for the email
  \<open>not-an-email\<close> the response is 500 with the generic message, not a 400.
\<close>

theorem invalid_email_status_counterexample:
  "\<not> test_whole email_pattern ''not-an-email'' \<and>
   submitContact ex_env ex_state (anonymous [] (ex_contact\<lparr>cb_email := Some ''not-an-email''\<rparr>)) =
     (ex_state, \<lparr>status = 500, success = False,
                 body = MessageText ''There was a problem submitting your form''\<rparr>)"
  by code_simp

section \<open>The matcher is correct\<close>

lemma nullable_lang: "nullable r \<longleftrightarrow> [] \<in> lang r"
  by (induction r) (auto simp: conc_def intro: star.intros)

lemma seq_lang: "lang (seq r q) = conc (lang r) (lang q)"
  by (cases r) (auto simp: conc_def)

lemma star_step:
  "c # w \<in> star A \<longleftrightarrow> (\<exists>u v. w = u @ v \<and> c # u \<in> A \<and> v \<in> star A)"
proof
  assume "c # w \<in> star A"
  then show "\<exists>u v. w = u @ v \<and> c # u \<in> A \<and> v \<in> star A"
  proof (induction "c # w" arbitrary: w rule: star.induct)
    case (star_more u v)
    show ?case
    proof (cases u)
      case Nil
      with star_more show ?thesis by simp
    next
      case (Cons d u')
      with star_more have "w = u' @ v" "c # u' \<in> A" by auto
      with star_more(2) show ?thesis by blast
    qed
  qed
next
  assume "\<exists>u v. w = u @ v \<and> c # u \<in> A \<and> v \<in> star A"
  then obtain u v where "w = u @ v" "c # u \<in> A" "v \<in> star A" by blast
  then show "c # w \<in> star A"
    using star.star_more [of "c # u" A v] by simp
qed

lemma conc_step:
  "c # w \<in> conc A B \<longleftrightarrow>
     (\<exists>u v. w = u @ v \<and> c # u \<in> A \<and> v \<in> B) \<or> ([] \<in> A \<and> c # w \<in> B)"
  unfolding conc_def
  by (auto simp: Cons_eq_append_conv) 

lemma after_char_lang: "langs (after_char c r) = {w. c # w \<in> lang r}"
proof (induction r)
  case Eps
  show ?case by (simp add: langs_def)
next
  case (Sym k)
  show ?case by (auto simp: langs_def)
next
  case (Alt r q)
  then show ?case by (auto simp: langs_def)
next
  case (Seq r q)
  have "langs (after_char c (Seq r q)) =
          conc (langs (after_char c r)) (lang q) \<union> (if nullable r then langs (after_char c q) else {})"
    by (auto simp: langs_def seq_lang conc_def)
  also have "\<dots> = {w. c # w \<in> lang (Seq r q)}"
    unfolding Seq by (auto simp: conc_step nullable_lang) (auto simp: conc_def)
  finally show ?case .
next
  case (Star r)
  have "langs (after_char c (Star r)) = conc (langs (after_char c r)) (star (lang r))"
    by (auto simp: langs_def seq_lang conc_def)
  also have "\<dots> = {w. c # w \<in> lang (Star r)}"
    unfolding Star by (auto simp: star_step conc_def)
  finally show ?case .
qed

lemma advance_langs: "langs (advance c rs) = {w. c # w \<in> langs rs}"
proof -
  have "langs (advance c rs) = (\<Union>r \<in> set rs. langs (after_char c r))"
    by (auto simp: advance_def langs_def)
  then show ?thesis by (auto simp: after_char_lang) (auto simp: langs_def)
qed

lemma any_nullable: "list_ex nullable rs \<longleftrightarrow> [] \<in> langs rs"
  by (auto simp: list_ex_iff langs_def nullable_lang)

lemma test_from_iff: "test_from rs s \<longleftrightarrow> (\<exists>u v. s = u @ v \<and> u \<in> langs rs)"
proof (induction s arbitrary: rs)
  case Nil
  show ?case by (simp add: any_nullable)
next
  case (Cons c cs)
  have "(\<exists>u v. c # cs = u @ v \<and> u \<in> langs rs) \<longleftrightarrow>
        [] \<in> langs rs \<or> (\<exists>u v. cs = u @ v \<and> c # u \<in> langs rs)"
    by (auto simp: Cons_eq_append_conv)
  then show ?case by (simp add: Cons any_nullable advance_langs)
qed

lemma test_anywhere_iff:
  "test_anywhere r s \<longleftrightarrow> (\<exists>p u v. s = p @ u @ v \<and> u \<in> lang r)"
proof (induction s)
  case Nil
  show ?case by (simp add: nullable_lang)
next
  case (Cons c cs)
  have "(\<exists>p u v. c # cs = p @ u @ v \<and> u \<in> lang r) \<longleftrightarrow>
        (\<exists>u v. c # cs = u @ v \<and> u \<in> lang r) \<or> (\<exists>p u v. cs = p @ u @ v \<and> u \<in> lang r)"
    (is "?L \<longleftrightarrow> ?A \<or> ?B")
  proof
    assume ?L
    then obtain p u v where e: "c # cs = p @ u @ v" and m: "u \<in> lang r" by blast
    show "?A \<or> ?B"
    proof (cases p)
      case Nil
      with e m show ?thesis by auto
    next
      case (Cons d p')
      with e have "cs = p' @ u @ v" by simp
      with m show ?thesis by blast
    qed
  next
    assume "?A \<or> ?B"
    then show ?L
    proof
      assume ?A
      then obtain u v where "c # cs = [] @ u @ v" "u \<in> lang r" by auto
      then show ?L by blast
    next
      assume ?B
      then obtain p u v where "c # cs = (c # p) @ u @ v" "u \<in> lang r" by auto
      then show ?L by blast
    qed
  qed
  then show ?case
    using Cons test_from_iff [of "[r]" "c # cs"] by (simp add: langs_def)
qed

lemma foldl_advance_langs:
  "langs (foldl (\<lambda>rs c. advance c rs) rs s) = {w. s @ w \<in> langs rs}"
  by (induction s arbitrary: rs) (simp_all add: advance_langs)

lemma test_whole_iff: "test_whole r s \<longleftrightarrow> s \<in> lang r"
  by (simp add: test_whole_def any_nullable foldl_advance_langs) (simp add: langs_def)

lemma lang_lit: "lang (lit s) = {s}"
  by (induction s) (auto simp: lit_def chr_def conc_def)

lemma lang_filetypes: "lang filetypes = set image_names"
  by (auto simp: filetypes_def lang_lit image_names_def)

lemma filetypes_test_iff: "test_anywhere filetypes s \<longleftrightarrow> contains_name s"
  unfolding test_anywhere_iff lang_filetypes contains_name_def sublist_def
  by blast


section \<open>Image upload: what is accepted\<close>

lemma checkFileType_iff:
  "checkFileType f =
     (if contains_name (mimetype f) \<and> contains_name (toLowerCase (path_extname (originalname f)))
      then Inr True else Inl (plain_error ''Only image files are allowed''))"
  by (simp add: checkFileType_def filetypes_test_iff)

lemma contains_name_suffix: "n \<in> set image_names \<Longrightarrow> contains_name (p @ n)"
  unfolding contains_name_def sublist_def by (metis append_Nil2)

text \<open>
  What the filter is sure to let through and sure to stop: the four image types with
  their usual content types pass, up to 5,000,000 bytes; a file whose lowercased
  extension or whose content type contains none of the four names is stopped, and
  so is a file of more than 5,000,000 bytes.
\<close>

lemma upload_accepts_images:
  assumes "req_body req = Some f"
  shows "(toLowerCase (path_extname (originalname f)) \<in> (\<lambda>n. ''.'' @ n) ` set image_names \<and>
          mimetype f \<in> (\<lambda>n. ''image/'' @ n) ` set image_names \<and>
          file_size f \<le> 5000000 \<longrightarrow>
            upload_image en st req =
              (st\<lparr>uploads := uploads st @ [storage_filename en f]\<rparr>,
               \<lparr>status = 200, success = True,
                body = FileData (storage_filename en f)
                         (''/uploads/projects/'' @ storage_filename en f)\<rparr>)) \<and>
         (\<not> contains_name (toLowerCase (path_extname (originalname f))) \<or>
          \<not> contains_name (mimetype f) \<longrightarrow>
            upload_image en st req =
              (st, \<lparr>status = 400, success = False,
                    body = ErrorText ''Only image files are allowed''\<rparr>)) \<and>
         (file_size f > 5000000 \<longrightarrow>
            fst (upload_image en st req) = st \<and> status (snd (upload_image en st req)) = 400)"
proof (intro conjI impI)
  assume a: "toLowerCase (path_extname (originalname f)) \<in> (\<lambda>n. ''.'' @ n) ` set image_names \<and>
          mimetype f \<in> (\<lambda>n. ''image/'' @ n) ` set image_names \<and> file_size f \<le> 5000000"
  then obtain n m where "n \<in> set image_names" "m \<in> set image_names"
    and "toLowerCase (path_extname (originalname f)) = ''.'' @ n" "mimetype f = ''image/'' @ m"
    by auto
  then have "contains_name (toLowerCase (path_extname (originalname f)))"
    and "contains_name (mimetype f)"
    using contains_name_suffix [of n "''.''"] contains_name_suffix [of m "''image/''"]
    by simp_all
  with a assms show "upload_image en st req =
              (st\<lparr>uploads := uploads st @ [storage_filename en f]\<rparr>,
               \<lparr>status = 200, success = True,
                body = FileData (storage_filename en f)
                         (''/uploads/projects/'' @ storage_filename en f)\<rparr>)"
    by (simp add: upload_image_def uploadProjectImage_def upload_def checkFileType_iff
          respond_def)
next
  assume "\<not> contains_name (toLowerCase (path_extname (originalname f))) \<or>
          \<not> contains_name (mimetype f)"
  with assms show "upload_image en st req =
              (st, \<lparr>status = 400, success = False,
                    body = ErrorText ''Only image files are allowed''\<rparr>)"
    by (auto simp: upload_image_def uploadProjectImage_def upload_def checkFileType_iff
          respond_def plain_error_def errorHandler_ErrorResponse)
next
  assume big: "file_size f > 5000000"
  have "upload_image en st req =
          (st, errorHandler (ErrorResponse
                 (if contains_name (mimetype f) \<and>
                     contains_name (toLowerCase (path_extname (originalname f)))
                  then ''File too large'' else ''Only image files are allowed'') 400))"
    using assms big
    by (simp add: upload_image_def uploadProjectImage_def upload_def checkFileType_iff
          respond_def plain_error_def)
  then show "fst (upload_image en st req) = st"
    and "status (snd (upload_image en st req)) = 400"
    by (simp_all add: errorHandler_ErrorResponse)
qed

lemma upload_accepts_images_instances:
  "upload_image ex_env ex_state (anonymous [] (Some ex_png)) =
     (ex_state\<lparr>uploads := [''project-100.PNG'']\<rparr>,
      \<lparr>status = 200, success = True,
       body = FileData ''project-100.PNG'' ''/uploads/projects/project-100.PNG''\<rparr>) \<and>
   status (snd (upload_image ex_env ex_state
       (anonymous [] (Some (ex_png\<lparr>originalname := ''notes.txt''\<rparr>))))) = 400 \<and>
   status (snd (upload_image ex_env ex_state
       (anonymous [] (Some (ex_png\<lparr>file_size := 5000001\<rparr>))))) = 400"
proof -
  let ?txt = "ex_png\<lparr>originalname := ''notes.txt''\<rparr>"
  let ?big = "ex_png\<lparr>file_size := 5000001\<rparr>"
  have b: "\<And>x. req_body (anonymous [] x) = x" by (simp add: anonymous_def)
  have o: "originalname ex_png = ''Team Photo.PNG''" by (simp add: ex_png_def)
  have e: "toLowerCase (path_extname ''Team Photo.PNG'') = ''.png''" by code_simp
  have g: "toLowerCase (path_extname (originalname ex_png)) \<in> (\<lambda>n. ''.'' @ n) ` set image_names \<and>
          mimetype ex_png \<in> (\<lambda>n. ''image/'' @ n) ` set image_names \<and>
          file_size ex_png \<le> 5000000"
    unfolding o e by (simp add: image_names_def ex_png_def)
  have x: "path_extname ''Team Photo.PNG'' = ''.PNG''" by code_simp
  have d: "show_nat 100 = ''100''" by code_simp
  have n: "storage_filename ex_env ex_png = ''project-100.PNG''"
    by (simp add: storage_filename_def o x ex_env_def d)
  have u: "uploads ex_state = []" by (simp add: ex_state_def)
  have "\<not> test_anywhere filetypes (toLowerCase (path_extname ''notes.txt''))" by code_simp
  then have t: "\<not> contains_name (toLowerCase (path_extname (originalname ?txt)))"
    by (simp add: filetypes_test_iff)
  have s: "file_size ?big > 5000000" by (simp add: ex_png_def)
  from upload_accepts_images [OF b, of ex_png ex_env ex_state] g
  have 1: "upload_image ex_env ex_state (anonymous [] (Some ex_png)) =
              (ex_state\<lparr>uploads := uploads ex_state @ [storage_filename ex_env ex_png]\<rparr>,
               \<lparr>status = 200, success = True,
                body = FileData (storage_filename ex_env ex_png)
                         (''/uploads/projects/'' @ storage_filename ex_env ex_png)\<rparr>)"
    by blast
  from upload_accepts_images [OF b, of ?txt ex_env ex_state] t
  have 2: "status (snd (upload_image ex_env ex_state (anonymous [] (Some ?txt)))) = 400"
    by simp
  from upload_accepts_images [OF b, of ?big ex_env ex_state] s
  have 3: "status (snd (upload_image ex_env ex_state (anonymous [] (Some ?big)))) = 400"
    by blast
  from 1 2 3 show ?thesis by (simp add: n u)
qed

lemma upload_accepted_iff:
  assumes "req_body req = Some f"
  shows "status (snd (upload_image en st req)) = 200 \<longleftrightarrow>
           contains_name (toLowerCase (path_extname (originalname f))) \<and>
           contains_name (mimetype f) \<and> file_size f \<le> 5000000"
  using assms
  by (simp add: upload_image_def uploadProjectImage_def upload_def checkFileType_iff
        respond_def plain_error_def errorHandler_ErrorResponse)

text \<open>
  Claim C7 (a file is accepted only if its extension and its declared content type
  are one of jpeg, jpg, png, webp) does not hold of the code. \<open>checkFileType\<close> says
  \<open>Allowed extensions\<close> and \<open>Check extension\<close>, and tests the extension with the
  unanchored pattern \<open>/jpeg|jpg|png|webp/\<close>, which only asks for one of the names
  somewhere inside. The file \<open>photo.pngx\<close> with the content type \<open>image/png\<close> and
  1000 bytes has the extension \<open>.pngx\<close>, none of the four, and is accepted, stored
  and answered 200 with its stored path.
\<close>

theorem upload_accepts_unlisted_extension:
  "toLowerCase (path_extname ''photo.pngx'') = ''.pngx'' \<and>
   upload_image ex_env ex_state
     (anonymous [] (Some \<lparr>originalname = ''photo.pngx'', mimetype = ''image/png'', file_size = 1000\<rparr>)) =
     (ex_state\<lparr>uploads := [''project-100.pngx'']\<rparr>,
      \<lparr>status = 200, success = True,
       body = FileData ''project-100.pngx'' ''/uploads/projects/project-100.pngx''\<rparr>)"
proof -
  have x: "path_extname ''photo.pngx'' = ''.pngx''" by code_simp
  have l: "toLowerCase ''.pngx'' = ''.pngx''" by code_simp
  have t: "test_anywhere filetypes ''.pngx''" "test_anywhere filetypes ''image/png''"
    by code_simp+
  have d: "show_nat 100 = ''100''" by code_simp
  show ?thesis
    by (simp add: upload_image_def uploadProjectImage_def upload_def checkFileType_def
          storage_filename_def respond_def anonymous_def ex_env_def ex_state_def x l t d
        del: test_anywhere.simps)
qed

section \<open>Authorisation of the Contact routes\<close>

lemma guard_not_admin:
  assumes "protect en st req = Inr req'" and "req_user req' = Some u" and "role u \<noteq> ''admin''"
  shows "and_then (and_then (protect en st req) (authorize [''admin''])) ctrl =
           Inl (ErrorResponse
                  (''User role '' @ role u @ '' is not authorized to access this route'') 403)"
  using assms by (simp add: and_then_def authorize_admin)

lemma guard_admin:
  assumes "protect en st req = Inr req'" and "req_user req' = Some u" and "role u = ''admin''"
  shows "and_then (and_then (protect en st req) (authorize [''admin''])) ctrl = ctrl req'"
  using assms by (simp add: and_then_def authorize_admin)

text \<open>
  Claim C9, amended. Each Contact management route (list, get, updateStatus, delete)
  runs \<open>protect\<close> and \<open>authorize('admin')\<close> before its controller. For every
  authenticated user whose role is admin the request reaches the controller; for
  every authenticated user with any other role, editor included, it is rejected with
  403 and the store is unchanged. \<open>updateStatus\<close> by an admin on an existing Contact
  sets its status and additionally its \<open>lastUpdated\<close> field.
\<close>

theorem contact_management_gate:
  assumes "protect en st req = Inr req'" and "req_user req' = Some u"
  shows "(role u = ''admin'' \<longrightarrow>
            contact_admin_route controller en st req = respond_if_any st (controller en st req')) \<and>
         (role u \<noteq> ''admin'' \<longrightarrow>
            contact_admin_route controller en st req =
              (st, Some \<lparr>status = 403, success = False,
                         body = ErrorText (''User role '' @ role u @
                                  '' is not authorized to access this route'')\<rparr>)) \<and>
         (role u = ''admin'' \<and> Contact_findById en st (param_id req) = Inr (Some c) \<and>
          req_body req \<in> set status_enum \<longrightarrow>
            contact_admin_route updateContact en st req =
              (st\<lparr>contacts := update_first (\<lambda>d. c_id d = param_id req)
                                 (\<lambda>_. c\<lparr>c_status := req_body req, lastUpdated := now en\<rparr>)
                                 (contacts st)\<rparr>,
               Some \<lparr>status = 200, success = True,
                     body = ContactData (c\<lparr>c_status := req_body req, lastUpdated := now en\<rparr>)\<rparr>))"
proof (intro conjI impI)
  assume "role u = ''admin''"
  then show "contact_admin_route controller en st req = respond_if_any st (controller en st req')"
    unfolding contact_admin_route_def by (simp add: guard_admin [OF assms])
next
  assume "role u \<noteq> ''admin''"
  then show "contact_admin_route controller en st req =
              (st, Some \<lparr>status = 403, success = False,
                         body = ErrorText (''User role '' @ role u @
                                  '' is not authorized to access this route'')\<rparr>)"
    unfolding contact_admin_route_def
    by (simp add: guard_not_admin [OF assms] respond_if_any_def errorHandler_ErrorResponse)
next
  assume a: "role u = ''admin'' \<and> Contact_findById en st (param_id req) = Inr (Some c) \<and>
          req_body req \<in> set status_enum"
  have keep: "param_id req' = param_id req" "req_body req' = req_body req"
    using protect_keeps_param [OF assms(1)] by simp_all
  from a have "contact_admin_route updateContact en st req =
                 respond_if_any st (updateContact en st req')"
    unfolding contact_admin_route_def by (simp add: guard_admin [OF assms])
  then show "contact_admin_route updateContact en st req =
              (st\<lparr>contacts := update_first (\<lambda>d. c_id d = param_id req)
                                 (\<lambda>_. c\<lparr>c_status := req_body req, lastUpdated := now en\<rparr>)
                                 (contacts st)\<rparr>,
               Some \<lparr>status = 200, success = True,
                     body = ContactData (c\<lparr>c_status := req_body req, lastUpdated := now en\<rparr>)\<rparr>)"
    using a keep
    by (simp add: updateContact_def respond_if_any_def enum_status_def Let_def)
qed

theorem contact_management_gate_witness:
  "contact_admin_route getContacts ex_env (ex_state\<lparr>contacts := [ex_stored_contact]\<rparr>)
       (bearer ''token-u1'' [] ''contacted'') =
     (ex_state\<lparr>contacts := [ex_stored_contact]\<rparr>, None) \<and>
   contact_admin_route deleteContact ex_env (ex_state\<lparr>contacts := [ex_stored_contact]\<rparr>)
       (bearer ''token-u2'' ''c1'' ''contacted'') =
     (ex_state\<lparr>contacts := [ex_stored_contact]\<rparr>,
      Some \<lparr>status = 403, success = False,
            body = ErrorText ''User role editor is not authorized to access this route''\<rparr>) \<and>
   contact_admin_route updateContact ex_env (ex_state\<lparr>contacts := [ex_stored_contact]\<rparr>)
       (bearer ''token-u1'' ''c1'' ''contacted'') =
     (ex_state\<lparr>contacts := [ex_stored_contact\<lparr>c_status := ''contacted'', lastUpdated := 100\<rparr>]\<rparr>,
      Some \<lparr>status = 200, success = True,
            body = ContactData (ex_stored_contact\<lparr>c_status := ''contacted'', lastUpdated := 100\<rparr>)\<rparr>)"
proof -
  let ?st = "ex_state\<lparr>contacts := [ex_stored_contact]\<rparr>"
  let ?list = "bearer ''token-u1'' [] ''contacted''"
  let ?ed = "bearer ''token-u2'' ''c1'' ''contacted''"
  let ?ad = "bearer ''token-u1'' ''c1'' ''contacted''"
  have p1: "protect ex_env ?st ?list = Inr (?list\<lparr>req_user := Some ex_admin\<rparr>)" by code_simp
  have p2: "protect ex_env ?st ?ed = Inr (?ed\<lparr>req_user := Some ex_editor\<rparr>)" by code_simp
  have p3: "protect ex_env ?st ?ad = Inr (?ad\<lparr>req_user := Some ex_admin\<rparr>)" by code_simp
  have ra: "role ex_admin = ''admin''" and re: "role ex_editor = ''editor''"
    by (simp_all add: ex_admin_def ex_editor_def)
  have f: "Contact_findById ex_env ?st (param_id ?ad) = Inr (Some ex_stored_contact) \<and>
           req_body ?ad \<in> set status_enum"
    by code_simp
  have u: "update_first (\<lambda>d. c_id d = param_id ?ad)
             (\<lambda>_. ex_stored_contact\<lparr>c_status := req_body ?ad, lastUpdated := now ex_env\<rparr>)
             (contacts ?st) =
           [ex_stored_contact\<lparr>c_status := ''contacted'', lastUpdated := 100\<rparr>]"
    by (simp add: bearer_def ex_stored_contact_def ex_env_def)
  have b: "req_body ?ad = ''contacted''" "now ex_env = 100"
    by (simp_all add: bearer_def ex_env_def)
  from contact_management_gate [where u = ex_admin and controller = getContacts, OF p1] ra
  have 1: "contact_admin_route getContacts ex_env ?st ?list = (?st, None)"
    by (simp add: respond_if_any_def getContacts_def)
  from contact_management_gate [where u = ex_editor and controller = deleteContact, OF p2] re
  have 2: "contact_admin_route deleteContact ex_env ?st ?ed =
     (?st, Some \<lparr>status = 403, success = False,
            body = ErrorText ''User role editor is not authorized to access this route''\<rparr>)"
    by simp
  have q3: "req_user (?ad\<lparr>req_user := Some ex_admin\<rparr>) = Some ex_admin" by simp
  from contact_management_gate [where c = ex_stored_contact and controller = getContacts, OF p3 q3] ra f
  have 3: "contact_admin_route updateContact ex_env ?st ?ad =
              (?st\<lparr>contacts := update_first (\<lambda>d. c_id d = param_id ?ad)
                      (\<lambda>_. ex_stored_contact\<lparr>c_status := req_body ?ad, lastUpdated := now ex_env\<rparr>)
                      (contacts ?st)\<rparr>,
               Some \<lparr>status = 200, success = True,
                     body = ContactData (ex_stored_contact\<lparr>c_status := req_body ?ad, lastUpdated := now ex_env\<rparr>)\<rparr>)"
    by blast
  from 1 2 3 show ?thesis unfolding u by (simp add: b)
qed

text \<open>
  Claim C9 as stated fails: an authenticated user whose role is editor is rejected
  with 403 by the Contact management routes.
\<close>

theorem editor_rejected_counterexample:
  "role ex_editor = ''editor'' \<and>
   protect ex_env ex_state (bearer ''token-u2'' [] ''contacted'') =
     Inr ((bearer ''token-u2'' [] ''contacted'')\<lparr>req_user := Some ex_editor\<rparr>) \<and>
   contact_admin_route getContacts ex_env ex_state (bearer ''token-u2'' [] ''contacted'') =
     (ex_state,
      Some \<lparr>status = 403, success = False,
            body = ErrorText ''User role editor is not authorized to access this route''\<rparr>)"
  by code_simp

end
